theory Spec2Isabelle
  imports Complex_Main "HOL-Library.Sublist" "HOL-Library.List_Lexorder" "HOL-Library.Char_ord"
begin

section \<open>Python values, exceptions and scores\<close>

text \<open>
  The arguments of \<^verbatim>\<open>score_model\<close> are dynamically typed: a model or a benchmark is
  either a string or some object, an identifier may be \<^verbatim>\<open>None\<close>, a string or anything
  else. \<open>PyObj t n\<close> is an object that is neither \<^verbatim>\<open>None\<close>, a string nor an integer, with
  its truth value \<open>t\<close> and an identity \<open>n\<close>.
\<close>

datatype pyval = PyNone | PyStr string | PyInt int | PyObj bool nat

fun is_str :: "pyval \<Rightarrow> bool" where
  "is_str (PyStr s) = True"
| "is_str v = False"

fun truthy :: "pyval \<Rightarrow> bool" where
  "truthy PyNone = False"
| "truthy (PyStr s) = (s \<noteq> [])"
| "truthy (PyInt i) = (i \<noteq> 0)"
| "truthy (PyObj t n) = t"

text \<open>Python's \<^verbatim>\<open>a or b\<close>: \<open>a\<close> when it is truthy, \<open>b\<close> otherwise.\<close>

definition py_or :: "pyval \<Rightarrow> pyval \<Rightarrow> pyval" where
  "py_or a b = (if truthy a then a else b)"

text \<open>
  Exceptions are values, one constructor for each class that occurs.
  \<^verbatim>\<open>NotImplementedError\<close> is a subclass of \<^verbatim>\<open>RuntimeError\<close> in Python, which
  \<open>isinstance_RuntimeError\<close> records; \<open>OtherError\<close> is an exception that is an instance of
  none of the classes named here.
\<close>

datatype exn =
    AssertionError string
  | KeyError
  | TypeError
  | ValueError
  | RuntimeError
  | NotImplementedError
  | OptimizeWarning
  | OtherError string

definition isinstance_RuntimeError :: "exn \<Rightarrow> bool" where
  "isinstance_RuntimeError e = (e = RuntimeError \<or> e = NotImplementedError)"

text \<open>
  A score is a labelled array. The three shapes that occur:
  \<^item> \<open>LayerScore rows\<close>: dimensions \<^verbatim>\<open>layer\<close> and \<^verbatim>\<open>aggregation\<close>; a row is the layer with its
    \<^verbatim>\<open>center\<close> and \<^verbatim>\<open>error\<close> values (finite floats, taken as reals);
  \<^item> \<open>CenterScore c raw\<close>: the single dimension \<^verbatim>\<open>aggregation = ['center']\<close> with value \<open>c\<close>,
    and the per-benchmark layer scores kept as the raw values attribute;
  \<^item> \<open>OtherScore n\<close>: any score without a \<^verbatim>\<open>layer\<close> dimension, opaque.
\<close>

type_synonym layer_row = "string \<times> real \<times> real"

datatype score =
    LayerScore "layer_row list"
  | CenterScore real "(string \<times> layer_row list) list"
  | OtherScore nat

section \<open>\<^verbatim>\<open>candidate_models/__init__.py\<close>\<close>

text \<open>
  The collaborators outside the repository's sources are parameters: the table
  \<^verbatim>\<open>model_layers\<close>, \<^verbatim>\<open>infer_image_size\<close>, \<^verbatim>\<open>benchmarks.load\<close>, the attribute
  \<^verbatim>\<open>stimulus_set_name\<close> of a benchmark, \<^verbatim>\<open>model_multi_activations\<close>, the call of a
  benchmark on an assembly, and the \<^verbatim>\<open>CartesianProduct\<close> transform (given its dividers,
  the assembly and the function to apply). An assembly is an opaque handle.
\<close>

type_synonym assembly = nat

record env =
  model_layers :: "string \<rightharpoonup> string list"
  infer_image_size :: "pyval \<Rightarrow> exn + pyval"
  benchmarks_load :: "string \<Rightarrow> exn + pyval"
  stimulus_set_name :: "pyval \<Rightarrow> exn + string"
  model_multi_activations ::
    "pyval \<Rightarrow> pyval \<Rightarrow> pyval \<Rightarrow> string list option \<Rightarrow> pyval \<Rightarrow> pyval \<Rightarrow> string
      \<Rightarrow> exn + assembly"
  apply_benchmark :: "pyval \<Rightarrow> assembly \<Rightarrow> exn + score"
  cartesian_product ::
    "string list \<Rightarrow> assembly \<Rightarrow> (assembly \<Rightarrow> exn + score) \<Rightarrow> exn + score"

text \<open>The keyword arguments of \<^verbatim>\<open>score_model\<close>; \<open>layers = None\<close> is Python's \<^verbatim>\<open>None\<close>.\<close>

record args =
  model :: pyval
  model_identifier :: pyval
  layers :: "string list option"
  weights :: pyval
  pca_components :: pyval
  image_size :: pyval
  benchmark :: pyval
  benchmark_identifier :: pyval

text \<open>\<^verbatim>\<open>class Defaults: benchmark = 'brain-score'\<close>\<close>

definition Defaults_benchmark :: string where
  "Defaults_benchmark = ''brain-score''"

text \<open>Python's \<^verbatim>\<open>needle in haystack\<close> on strings.\<close>

fun starts_with :: "string \<Rightarrow> string \<Rightarrow> bool" where
  "starts_with [] s = True"
| "starts_with (p # ps) [] = False"
| "starts_with (p # ps) (c # cs) = (p = c \<and> starts_with ps cs)"

fun str_contains :: "string \<Rightarrow> string \<Rightarrow> bool" where
  "str_contains p [] = (p = [])"
| "str_contains p (c # cs) = (starts_with p (c # cs) \<or> str_contains p cs)"

text \<open>
  Lines 25 to 34 of \<^verbatim>\<open>score_model\<close>: the layers default to the table entry of a model
  string, then the two identifier assertions with their \<^verbatim>\<open>or\<close> fallbacks. The result
  holds the resolved \<open>layers\<close>, \<open>model_identifier\<close> and \<open>benchmark_identifier\<close>.
\<close>

definition resolve_layers :: "env \<Rightarrow> args \<Rightarrow> exn + string list" where
  "resolve_layers e a =
     (case layers a of
        Some ls \<Rightarrow> Inr ls
      | None \<Rightarrow>
          (case model a of
             PyStr m \<Rightarrow> (case model_layers e m of None \<Rightarrow> Inl KeyError | Some ls \<Rightarrow> Inr ls)
           | _ \<Rightarrow> Inl (AssertionError ''need either known model string or list of layers'')))"

definition resolve_identifiers :: "env \<Rightarrow> args \<Rightarrow> exn + args" where
  "resolve_identifiers e a =
     (case resolve_layers e a of
        Inl x \<Rightarrow> Inl x
      | Inr ls \<Rightarrow>
          if \<not> (model_identifier a \<noteq> PyNone \<or> is_str (model a))
          then Inl (AssertionError ''need either known model string or model_identifier'')
          else if \<not> (benchmark_identifier a \<noteq> PyNone \<or> is_str (benchmark a))
          then Inl (AssertionError ''need either known benchmark string or benchmark_identifier'')
          else Inr (a\<lparr>layers := Some ls,
                      model_identifier := py_or (model_identifier a) (model a),
                      benchmark_identifier := py_or (benchmark_identifier a) (benchmark a)\<rparr>))"

text \<open>Line 36: \<^verbatim>\<open>image_size = image_size or infer_image_size(model_identifier)\<close>.\<close>

definition resolve_image_size :: "env \<Rightarrow> args \<Rightarrow> exn + args" where
  "resolve_image_size e r =
     (if truthy (image_size r) then Inr r
      else (case infer_image_size e (model_identifier r) of
              Inl x \<Rightarrow> Inl x
            | Inr sz \<Rightarrow> Inr (r\<lparr>image_size := sz\<rparr>)))"

definition score_model_arguments :: "env \<Rightarrow> args \<Rightarrow> exn + args" where
  "score_model_arguments e a =
     (case resolve_identifiers e a of Inl x \<Rightarrow> Inl x | Inr r \<Rightarrow> resolve_image_size e r)"

text \<open>
  \<^verbatim>\<open>_score_model\<close> (the body under the \<^verbatim>\<open>store_xarray\<close> decorator, whose cache is outside
  this model). A benchmark string is loaded, the activations are computed for the
  benchmark's stimulus set, and the benchmark is applied: directly when the identifier
  contains \<^verbatim>\<open>temporal\<close>, through the cartesian product over \<^verbatim>\<open>layer\<close> otherwise. The test
  \<^verbatim>\<open>'temporal' in benchmark_identifier\<close> raises \<^verbatim>\<open>TypeError\<close> on a value that is no string.
\<close>

definition load_benchmark :: "env \<Rightarrow> pyval \<Rightarrow> exn + pyval" where
  "load_benchmark e b = (case b of PyStr s \<Rightarrow> benchmarks_load e s | _ \<Rightarrow> Inr b)"

definition compute_activations :: "env \<Rightarrow> args \<Rightarrow> pyval \<Rightarrow> exn + assembly" where
  "compute_activations e a b =
     (case stimulus_set_name e b of
        Inl x \<Rightarrow> Inl x
      | Inr stim \<Rightarrow>
          model_multi_activations e (model a) (model_identifier a) (weights a) (layers a)
            (pca_components a) (image_size a) stim)"

definition private_score_model :: "env \<Rightarrow> args \<Rightarrow> exn + score" where
  "private_score_model e a =
     (case load_benchmark e (benchmark a) of
        Inl x \<Rightarrow> Inl x
      | Inr b \<Rightarrow>
          (case compute_activations e a b of
             Inl x \<Rightarrow> Inl x
           | Inr model_assembly \<Rightarrow>
               (case benchmark_identifier a of
                  PyStr bid \<Rightarrow>
                    if str_contains ''temporal'' bid
                    then apply_benchmark e b model_assembly
                    else cartesian_product e [''layer''] model_assembly (apply_benchmark e b)
                | _ \<Rightarrow> Inl TypeError)))"

text \<open>
  \<^verbatim>\<open>BrainScore\<close>: the benchmark identifiers set by \<^verbatim>\<open>__init__\<close> (the source line ends in the
  comment \<^verbatim>\<open># TODO: behavior\<close>).
\<close>

definition benchmark_identifiers :: "string list" where
  "benchmark_identifiers = [''dicarlo.Majaj2015.V4'', ''dicarlo.Majaj2015.IT'']"

text \<open>A loop that stops at the first exception: the results in order, or the first error.\<close>

fun sequence :: "(exn + 'a) list \<Rightarrow> exn + 'a list" where
  "sequence [] = Inr []"
| "sequence (Inl x # rs) = Inl x"
| "sequence (Inr v # rs) = (case sequence rs of Inl x \<Rightarrow> Inl x | Inr vs \<Rightarrow> Inr (v # vs))"

text \<open>
  \<^verbatim>\<open>argmax\<close>: the index of the first maximal value; \<^verbatim>\<open>ValueError\<close> on an empty sequence.
  \<open>argmax_from best v i xs\<close> scans \<open>xs\<close>, whose head has index \<open>i\<close>, with the best index
  \<open>best\<close> and its value \<open>v\<close> so far.
\<close>

fun argmax_from :: "nat \<Rightarrow> real \<Rightarrow> nat \<Rightarrow> real list \<Rightarrow> nat" where
  "argmax_from best v i [] = best"
| "argmax_from best v i (x # xs) =
     (if v < x then argmax_from i x (Suc i) xs else argmax_from best v (Suc i) xs)"

definition argmax :: "real list \<Rightarrow> exn + nat" where
  "argmax xs = (case xs of [] \<Rightarrow> Inl ValueError | x # rest \<Rightarrow> Inr (argmax_from 0 x 1 rest))"

definition center :: "layer_row \<Rightarrow> real" where
  "center r = fst (snd r)"

text \<open>
  \<^verbatim>\<open>best_score\<close>, on a score tagged with its benchmark: the row of the layer whose
  \<^verbatim>\<open>center\<close> is maximal. A score without a \<^verbatim>\<open>layer\<close> dimension cannot be reduced.
\<close>

definition best_score :: "string \<times> score \<Rightarrow> exn + (string \<times> layer_row)" where
  "best_score bs =
     (case snd bs of
        LayerScore rows \<Rightarrow>
          (case argmax (map center rows) of
             Inl x \<Rightarrow> Inl x
           | Inr i \<Rightarrow> Inr (fst bs, rows ! i))
      | _ \<Rightarrow> Inl ValueError)"

definition mean :: "real list \<Rightarrow> real" where
  "mean xs = sum_list xs / real (length xs)"

fun raw_rows :: "score \<Rightarrow> layer_row list" where
  "raw_rows (LayerScore rows) = rows"
| "raw_rows s = []"

text \<open>
  \<^verbatim>\<open>score_model\<close> and \<^verbatim>\<open>BrainScore.__call__\<close> call each other: \<^verbatim>\<open>score_model\<close> dispatches on
  the resolved benchmark identifier, and \<^verbatim>\<open>BrainScore\<close> scores the model on each of its
  benchmarks through \<^verbatim>\<open>score_model\<close> again (passing \<^verbatim>\<open>benchmark\<close> and leaving
  \<^verbatim>\<open>benchmark_identifier\<close> at its default \<^verbatim>\<open>None\<close>), keeps the best layer of each and
  averages the \<^verbatim>\<open>center\<close> values.
\<close>

function score_model :: "env \<Rightarrow> args \<Rightarrow> exn + score"
  and BrainScore_call :: "env \<Rightarrow> args \<Rightarrow> exn + score" where
  "score_model e a =
     (case score_model_arguments e a of
        Inl x \<Rightarrow> Inl x
      | Inr r \<Rightarrow>
          if benchmark_identifier r = PyStr ''brain-score''
          then BrainScore_call e r
          else private_score_model e r)"
| "BrainScore_call e a =
     (case sequence
             (map (\<lambda>b. case score_model e (a\<lparr>benchmark := PyStr b, benchmark_identifier := PyNone\<rparr>) of
                          Inl x \<Rightarrow> Inl x
                        | Inr s \<Rightarrow> Inr (b, s))
                benchmark_identifiers) of
        Inl x \<Rightarrow> Inl x
      | Inr benchmark_scores \<Rightarrow>
          (case sequence (map best_score benchmark_scores) of
             Inl x \<Rightarrow> Inl x
           | Inr scores \<Rightarrow>
               Inr (CenterScore (mean (map (\<lambda>s. center (snd s)) scores))
                      (map (\<lambda>bs. (fst bs, raw_rows (snd bs))) benchmark_scores))))"
  by pat_completeness auto
termination
proof (relation "measure (\<lambda>x. case x of
      Inl (e, a) \<Rightarrow> (case score_model_arguments e a of
                       Inl x \<Rightarrow> 0
                     | Inr r \<Rightarrow> if benchmark_identifier r = PyStr ''brain-score'' then 2 else 0)
    | Inr (e, a) \<Rightarrow> 1)")
  show "wf (measure (\<lambda>x. case x of
      Inl (e, a) \<Rightarrow> (case score_model_arguments e a of
                       Inl x \<Rightarrow> 0
                     | Inr r \<Rightarrow> if benchmark_identifier r = PyStr ''brain-score'' then 2 else 0)
    | Inr (e, a) \<Rightarrow> (1::nat)))"
    by simp
qed (auto simp: benchmark_identifiers_def score_model_arguments_def resolve_identifiers_def
      resolve_image_size_def py_or_def split: sum.splits if_splits)

text \<open>
  Whether a result is an \<^verbatim>\<open>AssertionError\<close>, and the assumption under which the
  assertions of \<^verbatim>\<open>score_model\<close> can be told from those of its collaborators: none of the
  collaborators raises an \<^verbatim>\<open>AssertionError\<close> of its own.
\<close>

definition raises_assertion :: "exn + 'a \<Rightarrow> bool" where
  "raises_assertion r = (case r of Inl (AssertionError m) \<Rightarrow> True | _ \<Rightarrow> False)"

definition collaborators_assertion_free :: "env \<Rightarrow> bool" where
  "collaborators_assertion_free e \<longleftrightarrow>
     (\<forall>v. \<not> raises_assertion (infer_image_size e v))
   \<and> (\<forall>s. \<not> raises_assertion (benchmarks_load e s))
   \<and> (\<forall>b. \<not> raises_assertion (stimulus_set_name e b))
   \<and> (\<forall>m i w l p s stim. \<not> raises_assertion (model_multi_activations e m i w l p s stim))
   \<and> (\<forall>b asm. \<not> raises_assertion (apply_benchmark e b asm))
   \<and> (\<forall>d asm b. \<not> raises_assertion (cartesian_product e d asm (apply_benchmark e b)))"

section \<open>Floats, arrays and axes\<close>

text \<open>
  The result of \<^verbatim>\<open>pearsonr\<close> may be \<^verbatim>\<open>nan\<close> (constant input); a comparison with \<^verbatim>\<open>nan\<close> is
  false. Other floats are finite and taken as the reals they denote.
\<close>

datatype pyfloat = Finite real | NaN

fun float_less :: "pyfloat \<Rightarrow> pyfloat \<Rightarrow> bool" where
  "float_less (Finite a) (Finite b) = (a < b)"
| "float_less a b = False"

text \<open>
  \<^verbatim>\<open>values.squeeze()\<close> on a column: a column with exactly one entry becomes a
  zero-dimensional array (\<open>Scalar\<close>), any other column stays one-dimensional.
\<close>

datatype ndarray = Scalar real | Vector "real list"

definition squeeze :: "real list \<Rightarrow> ndarray" where
  "squeeze xs = (case xs of [x] \<Rightarrow> Scalar x | _ \<Rightarrow> Vector xs)"

text \<open>
  An axes object is its limits, its labels and the list of what was drawn on it, in
  order. \<open>Scatter x y color alpha s\<close> is a \<^verbatim>\<open>scatter\<close> call for one point,
  \<open>ScatterArray\<close> one for arrays, \<open>Line\<close> a call of \<^verbatim>\<open>ax.plot\<close>, and
  \<open>TextLabel x y label fontsize\<close> a call of \<^verbatim>\<open>ax.text\<close>. Line styles are left out.
\<close>

datatype artist =
    Scatter real real string real real
  | ScatterArray "real list" "real list"
  | Errorbar "real list" "real list" "real list"
  | Line "real list" "real list"
  | TextLabel real real string "nat option"

record axes =
  xlim :: "real \<times> real"
  ylim :: "real \<times> real"
  title :: string
  xlabel :: string
  ylabel :: string
  artists :: "artist list"

definition new_axes :: axes where
  "new_axes = \<lparr>xlim = (0, 1), ylim = (0, 1), title = [], xlabel = [], ylabel = [], artists = []\<rparr>"

section \<open>\<^verbatim>\<open>candidate_models/analyze/figures.py\<close>\<close>

text \<open>
  A row of the collected data has the columns \<^verbatim>\<open>model\<close>, \<^verbatim>\<open>benchmark\<close>, \<^verbatim>\<open>score\<close> and
  \<^verbatim>\<open>error\<close>. The collaborators from \<^verbatim>\<open>candidate_models.analyze\<close> and scipy are parameters:
  the data of \<^verbatim>\<open>DataCollector()()\<close>, \<^verbatim>\<open>is_basenet\<close>, \<^verbatim>\<open>align\<close> (called with
  \<^verbatim>\<open>on='model'\<close>) and \<^verbatim>\<open>pearsonr\<close>, which returns the coefficient and the p-value.
\<close>

record data_row =
  row_model :: string
  row_benchmark :: string
  row_score :: real
  row_error :: real

record figures_env =
  DataCollector :: "data_row list"
  is_basenet :: "string \<Rightarrow> bool"
  align :: "data_row list \<Rightarrow> data_row list \<Rightarrow> data_row list"
  pearsonr :: "ndarray \<Rightarrow> ndarray \<Rightarrow> exn + (pyfloat \<times> pyfloat)"

text \<open>
  The classes of plots; \<open>self\<close> below is the class of the object a method is called on.
  \<open>IndividualPlot b\<close> is an \<^verbatim>\<open>IndividualPlot\<close> for the benchmark \<open>b\<close>; \<^verbatim>\<open>V4Plot\<close>, \<^verbatim>\<open>ITPlot\<close>
  and \<^verbatim>\<open>BehaviorPlot\<close> are its subclasses with fixed benchmarks (\<^verbatim>\<open>V1Plot\<close> cannot be
  constructed: its \<^verbatim>\<open>__init__\<close> omits the required \<^verbatim>\<open>benchmark\<close> argument).
\<close>

datatype plot_class =
    Plot | BrainScorePlot | BrainScoreZoomPlot | IndividualPlot string | V4Plot | ITPlot | BehaviorPlot

fun is_IndividualPlot :: "plot_class \<Rightarrow> bool" where
  "is_IndividualPlot (IndividualPlot b) = True"
| "is_IndividualPlot V4Plot = True"
| "is_IndividualPlot ITPlot = True"
| "is_IndividualPlot BehaviorPlot = True"
| "is_IndividualPlot c = False"

fun plot_benchmark :: "plot_class \<Rightarrow> string" where
  "plot_benchmark (IndividualPlot b) = b"
| "plot_benchmark V4Plot = ''dicarlo.Majaj2015.V4''"
| "plot_benchmark ITPlot = ''dicarlo.Majaj2015.IT''"
| "plot_benchmark BehaviorPlot = ''dicarlo.Rajalingham2018''"
| "plot_benchmark c = ''Brain-Score''"

text \<open>
  \<^verbatim>\<open>_text\<close>: \<^verbatim>\<open>Plot._text\<close> draws the label with the keyword arguments it is given (here
  only \<^verbatim>\<open>fontsize\<close>, if any); \<^verbatim>\<open>BrainScoreZoomPlot\<close> overrides the font size with 30 and
  the \<^verbatim>\<open>IndividualPlot\<close> family with 10.
\<close>

definition text_method :: "plot_class \<Rightarrow> axes \<Rightarrow> real \<Rightarrow> real \<Rightarrow> string \<Rightarrow> nat option \<Rightarrow> axes" where
  "text_method self ax x y label fontsize =
     ax\<lparr>artists := artists ax @
        [TextLabel x y label
           (if self = BrainScoreZoomPlot then Some 30
            else if is_IndividualPlot self then Some 10
            else fontsize)]\<rparr>"

text \<open>
  \<^verbatim>\<open>_highlight\<close>, for the scalar coordinates \<open>x\<close>, \<open>y\<close> of one model: \<^verbatim>\<open>Plot._highlight\<close>
  draws a short line and the label; \<^verbatim>\<open>BrainScorePlot._highlight\<close> returns at once when
  \<^verbatim>\<open>x > 72\<close> and calls the base method otherwise; \<^verbatim>\<open>BrainScoreZoomPlot._highlight\<close> calls
  \<^verbatim>\<open>Plot._highlight\<close> directly. \<open>highlight_method\<close> is the method that a call
  \<^verbatim>\<open>self._highlight(...)\<close> reaches.
\<close>

definition Plot_highlight :: "plot_class \<Rightarrow> axes \<Rightarrow> string \<Rightarrow> real \<Rightarrow> real \<Rightarrow> axes" where
  "Plot_highlight self ax label x y =
     (let dx = (snd (xlim ax) - fst (xlim ax)) * 0.02;
          dy = (snd (ylim ax) - fst (ylim ax)) * 0.02
      in text_method self (ax\<lparr>artists := artists ax @ [Line [x, x + dx] [y, y + dy]]\<rparr>)
           (x + dx) (y + dy) label (Some 20))"

definition BrainScorePlot_highlight :: "plot_class \<Rightarrow> axes \<Rightarrow> string \<Rightarrow> real \<Rightarrow> real \<Rightarrow> axes" where
  "BrainScorePlot_highlight self ax label x y =
     (if x > 72 then ax else Plot_highlight self ax label x y)"

definition BrainScoreZoomPlot_highlight :: "plot_class \<Rightarrow> axes \<Rightarrow> string \<Rightarrow> real \<Rightarrow> real \<Rightarrow> axes" where
  "BrainScoreZoomPlot_highlight self ax label x y = Plot_highlight self ax label x y"

fun highlight_method :: "plot_class \<Rightarrow> axes \<Rightarrow> string \<Rightarrow> real \<Rightarrow> real \<Rightarrow> axes" where
  "highlight_method BrainScorePlot ax label x y = BrainScorePlot_highlight BrainScorePlot ax label x y"
| "highlight_method BrainScoreZoomPlot ax label x y =
     BrainScoreZoomPlot_highlight BrainScoreZoomPlot ax label x y"
| "highlight_method self ax label x y = Plot_highlight self ax label x y"

text \<open>
  \<^verbatim>\<open>get_xye\<close>: the ImageNet scores aligned to the benchmark's rows, the benchmark's
  scores and errors (\<^verbatim>\<open>BrainScorePlot\<close> also returns the models when asked). The base
  class raises \<^verbatim>\<open>NotImplementedError\<close>.
\<close>

definition BrainScorePlot_get_xye ::
    "figures_env \<Rightarrow> data_row list \<Rightarrow> ndarray \<times> ndarray \<times> ndarray \<times> string list" where
  "BrainScorePlot_get_xye fe data =
     (let imagenet_data = filter (\<lambda>r. row_benchmark r = ''ImageNet'') data;
          benchmark_data = filter (\<lambda>r. row_benchmark r = ''Brain-Score'') data;
          imagenet_data = align fe imagenet_data benchmark_data
      in (squeeze (map row_score imagenet_data), squeeze (map row_score benchmark_data),
          squeeze (map row_error benchmark_data), map row_model imagenet_data))"

definition IndividualPlot_get_xye ::
    "figures_env \<Rightarrow> string \<Rightarrow> data_row list \<Rightarrow> ndarray \<times> ndarray \<times> ndarray" where
  "IndividualPlot_get_xye fe b data =
     (let imagenet_data = filter (\<lambda>r. row_benchmark r = ''ImageNet'') data;
          benchmark_data = filter (\<lambda>r. row_benchmark r = b) data;
          imagenet_data = align fe imagenet_data benchmark_data
      in (squeeze (map row_score imagenet_data), squeeze (map row_score benchmark_data),
          squeeze (map row_error benchmark_data)))"

definition get_xye :: "plot_class \<Rightarrow> figures_env \<Rightarrow> data_row list \<Rightarrow> exn + (ndarray \<times> ndarray \<times> ndarray)" where
  "get_xye self fe data =
     (if self = Plot then Inl NotImplementedError
      else if is_IndividualPlot self then Inr (IndividualPlot_get_xye fe (plot_benchmark self) data)
      else (case BrainScorePlot_get_xye fe data of (x, y, yerr, models) \<Rightarrow> Inr (x, y, yerr)))"

text \<open>
  The format \<^verbatim>\<open>{r:.2f}\<close>: the sign, the integer part and two decimals of the value
  rounded to hundredths, ties to even (the rounding Python applies to the exact value
  of the float); \<^verbatim>\<open>nan\<close> for a NaN.
\<close>

definition digit_char :: "nat \<Rightarrow> char" where
  "digit_char n = ''0123456789'' ! n"

function string_of_nat :: "nat \<Rightarrow> string" where
  "string_of_nat n = (if n < 10 then [digit_char n] else string_of_nat (n div 10) @ [digit_char (n mod 10)])"
  by pat_completeness auto
termination
  by (relation "measure id") auto

declare string_of_nat.simps [simp del]

definition round_half_even :: "real \<Rightarrow> int" where
  "round_half_even q =
     (let f = \<lfloor>q\<rfloor>; d = q - of_int f
      in if d < 1 / 2 then f else if 1 / 2 < d then f + 1 else if even f then f else f + 1)"

fun format_2f :: "pyfloat \<Rightarrow> string" where
  "format_2f NaN = ''nan''"
| "format_2f (Finite r) =
     (let n = nat (round_half_even (\<bar>r\<bar> * 100))
      in (if r < 0 then ''-'' else []) @ string_of_nat (n div 100) @ ''.''
           @ [digit_char (n mod 100 div 10), digit_char (n mod 10)])"

text \<open>
  What a formatted number denotes: \<open>read_2f\<close> reads an optional minus sign, one or more
  digits, a point and exactly two digits, and returns the value of this decimal
  numeral; it is used to state that the format shows the coefficient to two decimals.
\<close>

definition digit_value :: "char \<Rightarrow> nat option" where
  "digit_value c =
     map_of [(CHR ''0'', 0), (CHR ''1'', 1), (CHR ''2'', 2), (CHR ''3'', 3), (CHR ''4'', 4),
             (CHR ''5'', 5), (CHR ''6'', 6), (CHR ''7'', 7), (CHR ''8'', 8), (CHR ''9'', 9)] c"

definition add_digit :: "char \<Rightarrow> nat option \<Rightarrow> nat option" where
  "add_digit c acc =
     (case (acc, digit_value c) of (Some n, Some d) \<Rightarrow> Some (10 * n + d) | _ \<Rightarrow> None)"

definition nat_of_digits :: "string \<Rightarrow> nat option" where
  "nat_of_digits s = (if s = [] then None else fold add_digit s (Some 0))"

definition read_unsigned :: "string \<Rightarrow> real option" where
  "read_unsigned s =
     (case rev s of
        d2 # d1 # dot # int_rev \<Rightarrow>
          if dot = CHR ''.''
          then (case (nat_of_digits (rev int_rev), digit_value d1, digit_value d2) of
                  (Some ip, Some a, Some b) \<Rightarrow> Some (real ip + real a / 10 + real b / 100)
                | _ \<Rightarrow> None)
          else None
      | _ \<Rightarrow> None)"

definition read_2f :: "string \<Rightarrow> real option" where
  "read_2f s =
     (case s of
        [] \<Rightarrow> None
      | c # t \<Rightarrow> if c = CHR ''-'' then map_option uminus (read_unsigned t) else read_unsigned s)"

text \<open>
  \<^verbatim>\<open>Plot.indicate_correlation\<close>, inherited by every plot class.
\<close>

definition indicate_correlation :: "plot_class \<Rightarrow> figures_env \<Rightarrow> axes \<Rightarrow> data_row list \<Rightarrow> exn + axes" where
  "indicate_correlation self fe ax data =
     (case get_xye self fe data of
        Inl e \<Rightarrow> Inl e
      | Inr (x, y, error) \<Rightarrow>
          (case pearsonr fe x y of
             Inl e \<Rightarrow> Inl e
           | Inr (r, p) \<Rightarrow>
               let text = (if float_less p (Finite 0.05) then ''r = '' @ format_2f r else ''r n.s.'');
                   text_x = snd (xlim ax) - 0.15 * (snd (xlim ax) - fst (xlim ax));
                   text_y = fst (ylim ax) + 0.02 * (snd (ylim ax) - fst (ylim ax))
               in Inr (text_method self ax text_x text_y text None)))"

text \<open>
  \<^verbatim>\<open>BrainScorePlot\<close>: the colors and alphas set by \<^verbatim>\<open>__init__\<close>, the marker size
  (\<^verbatim>\<open>BrainScoreZoomPlot.plot\<close> passes 300 instead of the default 50), \<^verbatim>\<open>plot\<close> and
  \<^verbatim>\<open>apply\<close>. \<^verbatim>\<open>apply\<close> passes lists for color and alpha, so \<^verbatim>\<open>plot\<close> scatters every
  point on its own, over the \<^verbatim>\<open>zip\<close> of the coordinates, colors and alphas; no error bars
  are drawn since no error is passed. \<^verbatim>\<open>len(x)\<close> and the iteration raise \<^verbatim>\<open>TypeError\<close>
  on a zero-dimensional array.
\<close>

definition nonbasenet_color :: string where "nonbasenet_color = ''#078930''"
definition basenet_color :: string where "basenet_color = ''#878789''"
definition nonbasenet_alpha :: real where "nonbasenet_alpha = 0.7"
definition basenet_alpha :: real where "basenet_alpha = 0.3"

definition marker_size :: "plot_class \<Rightarrow> real" where
  "marker_size self = (if self = BrainScoreZoomPlot then 300 else 50)"

definition BrainScorePlot_plot ::
    "plot_class \<Rightarrow> ndarray \<Rightarrow> ndarray \<Rightarrow> axes \<Rightarrow> string list \<Rightarrow> real list \<Rightarrow> exn + axes" where
  "BrainScorePlot_plot self x y ax color alpha =
     (case (x, y) of
        (Vector xs, Vector ys) \<Rightarrow>
          Inr (ax\<lparr>artists := artists ax @
                 map (\<lambda>(px, py, c, a). Scatter px py c a (marker_size self))
                   (zip xs (zip ys (zip color alpha)))\<rparr>)
      | _ \<Rightarrow> Inl TypeError)"

definition BrainScorePlot_apply :: "plot_class \<Rightarrow> figures_env \<Rightarrow> data_row list \<Rightarrow> axes \<Rightarrow> exn + axes" where
  "BrainScorePlot_apply self fe data ax =
     (case BrainScorePlot_get_xye fe data of
        (x, y, error, models) \<Rightarrow>
          let color = map (\<lambda>m. if \<not> is_basenet fe m then nonbasenet_color else basenet_color) models;
              alpha = map (\<lambda>m. if \<not> is_basenet fe m then nonbasenet_alpha else basenet_alpha) models
          in (case BrainScorePlot_plot self x y ax color alpha of
                Inl e \<Rightarrow> Inl e
              | Inr ax' \<Rightarrow> Inr (ax'\<lparr>xlabel := ''Imagenet performance (% top-1)'',
                                    ylabel := ''Brain-Score''\<rparr>)))"

text \<open>
  \<^verbatim>\<open>IndividualPlot.collect_results\<close>: the collected data without three CORnet models and
  without the basenets.
\<close>

definition IndividualPlot_collect_results :: "figures_env \<Rightarrow> data_row list" where
  "IndividualPlot_collect_results fe =
     (let data = DataCollector fe;
          data = filter (\<lambda>r. row_model r \<notin> set [''cornet_z'', ''cornet_r'', ''cornet_r2'']) data;
          data = filter (\<lambda>r. \<not> is_basenet fe (row_model r)) data
      in data)"

text \<open>
  \<^verbatim>\<open>os.path.join\<close> on a POSIX system: a component that starts with the separator
  replaces the path built so far; otherwise it is appended, after a separator unless
  the path is empty or already ends in one.
\<close>

definition sep :: string where "sep = ''/''"

definition join_step :: "string \<Rightarrow> string \<Rightarrow> string" where
  "join_step b path =
     (if starts_with sep b then b
      else if path = [] \<or> [last path] = sep then path @ b
      else path @ sep @ b)"

definition os_path_join :: "string \<Rightarrow> string list \<Rightarrow> string" where
  "os_path_join a p = fold join_step p a"

text \<open>
  \<^verbatim>\<open>PaperFigures\<close>: \<^verbatim>\<open>__init__\<close>, given \<^verbatim>\<open>os.path.dirname(__file__)\<close>, and \<^verbatim>\<open>save\<close>, which
  returns the calls of \<^verbatim>\<open>fig.savefig\<close> in order, each with its path and format
  (\<^verbatim>\<open>savefig\<close> itself, and its failures, are outside the model).
\<close>

record PaperFigures =
  savedir :: string
  save_formats :: "string list"

definition PaperFigures_init :: "string \<Rightarrow> PaperFigures" where
  "PaperFigures_init dirname =
     \<lparr>savedir = os_path_join dirname [''..'', ''..'', ''results''],
      save_formats = [''svg'', ''pdf'', ''png'']\<rparr>"

definition save :: "PaperFigures \<Rightarrow> string \<Rightarrow> (string \<times> string) list" where
  "save self name =
     map (\<lambda>extension. (os_path_join (savedir self) [name @ ''.'' @ extension], extension))
       (save_formats self)"

section \<open>\<^verbatim>\<open>candidate_models/analyze/ceiling.py\<close>\<close>

text \<open>
  The parameters of \<^verbatim>\<open>plot\<close>: \<^verbatim>\<open>compute_ceilings\<close> (whose body only chains calls into the
  brainscore library; it takes the data, metric and ceiling names and the size under
  its label, and returns center and error per region), \<^verbatim>\<open>merge_data_arrays\<close> (the merged
  array, as the center and error values along the sizes for each region),
  \<^verbatim>\<open>scipy.optimize.curve_fit\<close>, \<^verbatim>\<open>scipy.stats.pearsonr\<close>, \<^verbatim>\<open>np.arange\<close> and \<^verbatim>\<open>np.exp\<close>.
\<close>

record ceiling_env =
  compute_ceilings :: "string \<Rightarrow> string \<Rightarrow> string \<Rightarrow> string \<Rightarrow> real \<Rightarrow> exn + (string \<times> real \<times> real) list"
  merge_data_arrays ::
    "(real \<times> (string \<times> real \<times> real) list) list \<Rightarrow> exn + (string \<times> real list \<times> real list) list"
  curve_fit ::
    "(real \<Rightarrow> real \<Rightarrow> real \<Rightarrow> real \<Rightarrow> real) \<Rightarrow> real list \<Rightarrow> real list \<Rightarrow> exn + (real \<times> real \<times> real)"
  stats_pearsonr :: "real list \<Rightarrow> real list \<Rightarrow> exn + (pyfloat \<times> pyfloat)"
  arange :: "real \<Rightarrow> real \<Rightarrow> real \<Rightarrow> exn + real list"
  np_exp :: "real \<Rightarrow> real"

definition sigmoid :: "ceiling_env \<Rightarrow> real \<Rightarrow> real \<Rightarrow> real \<Rightarrow> real \<Rightarrow> real" where
  "sigmoid ce x a b c = (1 - c) / (1 + np_exp ce (- b * (x - a)))"

text \<open>
  \<^verbatim>\<open>np.unique\<close>: the distinct values, sorted.
\<close>

definition unique :: "string list \<Rightarrow> string list" where
  "unique xs = sort (remdups xs)"

text \<open>
  Lines 29 to 36 of \<^verbatim>\<open>plot\<close>: the ceilings of every size, merged.
\<close>

definition collect_ceilings ::
    "ceiling_env \<Rightarrow> real list \<Rightarrow> string \<Rightarrow> string \<Rightarrow> string \<Rightarrow> string
      \<Rightarrow> exn + (string \<times> real list \<times> real list) list" where
  "collect_ceilings ce sizes size_label data metric ceiling_name =
     (case sequence
             (map (\<lambda>size. case compute_ceilings ce data metric ceiling_name size_label size of
                             Inl e \<Rightarrow> Inl e
                           | Inr score \<Rightarrow> Inr (size, score))
                sizes) of
        Inl e \<Rightarrow> Inl e
      | Inr ceilings \<Rightarrow> merge_data_arrays ce ceilings)"

text \<open>
  The body of the \<^verbatim>\<open>try\<close> block: the fit, the correlation of the data with the fitted
  values and, when it is significant, the fitted curve. \<^verbatim>\<open>min\<close> and \<^verbatim>\<open>max\<close> raise
  \<^verbatim>\<open>ValueError\<close> on an empty sequence.
\<close>

definition fit_curve :: "ceiling_env \<Rightarrow> real list \<Rightarrow> real list \<Rightarrow> exn + artist list" where
  "fit_curve ce x y =
     (case curve_fit ce (sigmoid ce) x y of
        Inl e \<Rightarrow> Inl e
      | Inr (a, b, c) \<Rightarrow>
          (case stats_pearsonr ce y (map (\<lambda>v. sigmoid ce v a b c) x) of
             Inl e \<Rightarrow> Inl e
           | Inr (r, p) \<Rightarrow>
               if float_less p (Finite 0.05)
               then (case x of
                       [] \<Rightarrow> Inl ValueError
                     | v # vs \<Rightarrow>
                         (case arange ce (fold min vs v) (fold max vs v)
                                 ((fold max vs v - fold min vs v) / 100) of
                            Inl e \<Rightarrow> Inl e
                          | Inr x_fitplot \<Rightarrow>
                              Inr [Line x_fitplot (map (\<lambda>v. sigmoid ce v a b c) x_fitplot)]))
               else Inr []))"

text \<open>
  The handler \<^verbatim>\<open>except (RuntimeError, OptimizeWarning): pass\<close>.
\<close>

definition caught :: "exn \<Rightarrow> bool" where
  "caught e = (isinstance_RuntimeError e \<or> e = OptimizeWarning)"

text \<open>
  One iteration of the loop over the axes and regions, the loop, and \<^verbatim>\<open>plot\<close>: the
  figure is returned as its axes, the two subplots and the frameless one that holds
  the labels.
\<close>

definition plot_region ::
    "ceiling_env \<Rightarrow> real list \<Rightarrow> (string \<times> real list \<times> real list) list \<Rightarrow> axes \<Rightarrow> string \<Rightarrow> exn + axes" where
  "plot_region ce x ceilings ax region =
     (case map_of ceilings region of
        None \<Rightarrow> Inl KeyError
      | Some (y, err) \<Rightarrow>
          let ax = ax\<lparr>title := region, artists := artists ax @ [ScatterArray x y, Errorbar x y err]\<rparr>
          in (case fit_curve ce x y of
                Inl e \<Rightarrow> if caught e then Inr ax else Inl e
              | Inr curve \<Rightarrow> Inr (ax\<lparr>artists := artists ax @ curve\<rparr>)))"

fun plot_regions ::
    "ceiling_env \<Rightarrow> real list \<Rightarrow> (string \<times> real list \<times> real list) list \<Rightarrow> (axes \<times> string) list
      \<Rightarrow> exn + axes list" where
  "plot_regions ce x ceilings [] = Inr []"
| "plot_regions ce x ceilings ((ax, region) # rest) =
     (case plot_region ce x ceilings ax region of
        Inl e \<Rightarrow> Inl e
      | Inr ax' \<Rightarrow>
          (case plot_regions ce x ceilings rest of
             Inl e \<Rightarrow> Inl e
           | Inr axs \<Rightarrow> Inr (ax' # axs)))"

definition subplots :: "axes list" where
  "subplots = [new_axes, new_axes]"

definition plot :: "ceiling_env \<Rightarrow> real list \<Rightarrow> string \<Rightarrow> string \<Rightarrow> string \<Rightarrow> string \<Rightarrow> exn + axes list" where
  "plot ce sizes size_label data metric ceiling_name =
     (case collect_ceilings ce sizes size_label data metric ceiling_name of
        Inl e \<Rightarrow> Inl e
      | Inr ceilings \<Rightarrow>
          (case plot_regions ce sizes ceilings (zip subplots (unique (map fst ceilings))) of
             Inl e \<Rightarrow> Inl e
           | Inr axs \<Rightarrow>
               Inr (axs @ drop (length axs) subplots
                      @ [new_axes\<lparr>xlabel := size_label, ylabel := ''goodness-of-fit''\<rparr>])))"

section \<open>Concrete instances\<close>

text \<open>
  One instance of the collaborators of \<^verbatim>\<open>score_model\<close>, for evaluating the definitions: a
  model table with \<^verbatim>\<open>alexnet\<close>, four loadable benchmarks (each an object), a benchmark
  call that returns an opaque score numbered after its benchmark, and a cartesian
  product that turns this number into a score over two layers. \<open>example_args\<close> is the
  call \<^verbatim>\<open>score_model('alexnet')\<close> with every other argument at its default;
  \<open>example_resolved b\<close> holds the arguments as \<^verbatim>\<open>score_model\<close> passes them on for the
  benchmark string \<open>b\<close>.
\<close>

definition example_table :: "nat \<Rightarrow> layer_row list" where
  "example_table n = [(''fc6'', real n / 10, 1 / 100), (''fc7'', real (9 - n) / 10, 1 / 100)]"

definition example_env :: env where
  "example_env = \<lparr>
     model_layers = [''alexnet'' \<mapsto> [''fc6'', ''fc7'']],
     infer_image_size = (\<lambda>v. Inr (PyInt 224)),
     benchmarks_load = (\<lambda>s. if s = ''dicarlo.Majaj2015.V4'' then Inr (PyObj True 4)
                             else if s = ''dicarlo.Majaj2015.IT'' then Inr (PyObj True 6)
                             else if s = ''dicarlo.Rajalingham2018'' then Inr (PyObj True 9)
                             else if s = ''dicarlo.Kar2018.temporal'' then Inr (PyObj True 2)
                             else Inl KeyError),
     stimulus_set_name = (\<lambda>b. case b of PyObj t n \<Rightarrow> Inr ''dicarlo.hvm'' | _ \<Rightarrow> Inl (OtherError ''AttributeError'')),
     model_multi_activations = (\<lambda>m mi w ls p sz stim. Inr 0),
     apply_benchmark = (\<lambda>b asm. case b of PyObj t n \<Rightarrow> Inr (OtherScore n) | _ \<Rightarrow> Inl TypeError),
     cartesian_product = (\<lambda>dividers asm f. case f asm of
                             Inl x \<Rightarrow> Inl x
                           | Inr (OtherScore n) \<Rightarrow> Inr (LayerScore (example_table n))
                           | Inr s \<Rightarrow> Inr s)\<rparr>"

definition example_args :: args where
  "example_args = \<lparr>model = PyStr ''alexnet'', model_identifier = PyNone, layers = None,
     weights = PyStr ''imagenet'', pca_components = PyInt 1000, image_size = PyNone,
     benchmark = PyStr Defaults_benchmark, benchmark_identifier = PyNone\<rparr>"

definition example_resolved :: "string \<Rightarrow> args" where
  "example_resolved b = \<lparr>model = PyStr ''alexnet'', model_identifier = PyStr ''alexnet'',
     layers = Some [''fc6'', ''fc7''], weights = PyStr ''imagenet'', pca_components = PyInt 1000,
     image_size = PyInt 224, benchmark = PyStr b, benchmark_identifier = PyStr b\<rparr>"

text \<open>
  Collected data with two models, a basenet and a CORnet; \<open>example_figures_env rp\<close>
  returns \<open>rp\<close> from \<^verbatim>\<open>pearsonr\<close>, takes the models named \<^verbatim>\<open>basenet...\<close> as basenets and
  aligns by keeping the ImageNet rows of the benchmark's models. The merged ceilings
  have two regions; in \<open>example_ceiling_env e_it e_v4\<close> the curve fit raises \<open>e_it\<close> on
  the IT values and \<open>e_v4\<close> on all others.
\<close>

definition example_rows :: "data_row list" where
  "example_rows =
     [\<lparr>row_model = ''alexnet'', row_benchmark = ''ImageNet'', row_score = 57.7, row_error = 0\<rparr>,
      \<lparr>row_model = ''basenet6'', row_benchmark = ''ImageNet'', row_score = 40, row_error = 0\<rparr>,
      \<lparr>row_model = ''alexnet'', row_benchmark = ''Brain-Score'', row_score = 0.3, row_error = 0.01\<rparr>,
      \<lparr>row_model = ''basenet6'', row_benchmark = ''Brain-Score'', row_score = 0.2, row_error = 0.02\<rparr>,
      \<lparr>row_model = ''alexnet'', row_benchmark = ''dicarlo.Majaj2015.V4'', row_score = 0.6, row_error = 0.01\<rparr>,
      \<lparr>row_model = ''cornet_z'', row_benchmark = ''ImageNet'', row_score = 48, row_error = 0\<rparr>,
      \<lparr>row_model = ''cornet_z'', row_benchmark = ''Brain-Score'', row_score = 0.25, row_error = 0.02\<rparr>]"

definition example_figures_env :: "pyfloat \<times> pyfloat \<Rightarrow> figures_env" where
  "example_figures_env rp =
     \<lparr>DataCollector = example_rows,
      is_basenet = starts_with ''basenet'',
      align = (\<lambda>imagenet_data benchmark_data.
                 filter (\<lambda>r. row_model r \<in> set (map row_model benchmark_data)) imagenet_data),
      pearsonr = (\<lambda>x y. Inr rp)\<rparr>"

definition example_ceilings :: "(string \<times> real list \<times> real list) list" where
  "example_ceilings = [(''V4'', [0.3, 0.4], [0.01, 0.01]), (''IT'', [0.5, 0.6], [0.02, 0.02])]"

definition example_ceiling_env :: "exn \<Rightarrow> exn \<Rightarrow> ceiling_env" where
  "example_ceiling_env e_it e_v4 =
     \<lparr>compute_ceilings = (\<lambda>data metric ceiling_name size_label size. Inr []),
      merge_data_arrays = (\<lambda>scores. Inr example_ceilings),
      curve_fit = (\<lambda>f x y. if y = [0.5, 0.6] then Inl e_it else Inl e_v4),
      stats_pearsonr = (\<lambda>y fit_y. Inr (NaN, NaN)),
      arange = (\<lambda>start stop step. Inr []),
      np_exp = (\<lambda>v. 1)\<rparr>"

section \<open>Properties of \<^verbatim>\<open>score_model\<close>\<close>

subsection \<open>Substring test\<close>

lemma starts_with_prefix: "starts_with p s = prefix p s"
  by (induction p s rule: starts_with.induct) auto

lemma str_contains_sublist: "str_contains p s = sublist p s"
  by (induction s) (auto simp: starts_with_prefix sublist_Cons_right)

subsection \<open>Evaluation at the concrete environment\<close>

lemmas example_simps = example_env_def example_args_def Defaults_benchmark_def score_model_arguments_def
  resolve_identifiers_def resolve_layers_def resolve_image_size_def py_or_def
  example_resolved_def benchmark_identifiers_def private_score_model_def load_benchmark_def compute_activations_def
  best_score_def argmax_def center_def mean_def example_table_def

subsection \<open>Dispatch, assertions and fallbacks\<close>

text \<open>
  C4. Once the benchmark is loaded and the activations are computed, \<^verbatim>\<open>_score_model\<close>
  returns the score of the cartesian product over the divider \<^verbatim>\<open>layer\<close> applied with the
  benchmark when the identifier does not contain \<^verbatim>\<open>temporal\<close>, and the benchmark called
  directly on the model assembly when it does.
\<close>
theorem private_score_model_layer_product:
  assumes "load_benchmark e (benchmark a) = Inr b"
    and "compute_activations e a b = Inr asm"
    and "benchmark_identifier a = PyStr bid"
  shows "(\<not> sublist ''temporal'' bid \<longrightarrow>
            private_score_model e a = cartesian_product e [''layer''] asm (apply_benchmark e b))
       \<and> (sublist ''temporal'' bid \<longrightarrow> private_score_model e a = apply_benchmark e b asm)"
  using assms by (simp add: private_score_model_def str_contains_sublist)

text \<open>Both cases of C4 at the concrete environment.\<close>

theorem private_score_model_layer_product_witness:
  "load_benchmark example_env (benchmark (example_resolved ''dicarlo.Majaj2015.V4'')) = Inr (PyObj True 4)
   \<and> compute_activations example_env (example_resolved ''dicarlo.Majaj2015.V4'') (PyObj True 4) = Inr 0
   \<and> \<not> sublist ''temporal'' ''dicarlo.Majaj2015.V4''
   \<and> private_score_model example_env (example_resolved ''dicarlo.Majaj2015.V4'')
       = Inr (LayerScore [(''fc6'', 2 / 5, 1 / 100), (''fc7'', 1 / 2, 1 / 100)])
   \<and> load_benchmark example_env (benchmark (example_resolved ''dicarlo.Kar2018.temporal'')) = Inr (PyObj True 2)
   \<and> compute_activations example_env (example_resolved ''dicarlo.Kar2018.temporal'') (PyObj True 2) = Inr 0
   \<and> sublist ''temporal'' ''dicarlo.Kar2018.temporal''
   \<and> private_score_model example_env (example_resolved ''dicarlo.Kar2018.temporal'') = Inr (OtherScore 2)"
proof -
  let ?v4 = "example_resolved ''dicarlo.Majaj2015.V4''"
  let ?tm = "example_resolved ''dicarlo.Kar2018.temporal''"
  have l1: "load_benchmark example_env (benchmark ?v4) = Inr (PyObj True 4)"
    by (simp add: load_benchmark_def example_env_def example_resolved_def)
  have c1: "compute_activations example_env ?v4 (PyObj True 4) = Inr 0"
    by (simp add: compute_activations_def example_env_def)
  have i1: "benchmark_identifier ?v4 = PyStr ''dicarlo.Majaj2015.V4''"
    by (simp add: example_resolved_def)
  have n1: "\<not> sublist ''temporal'' ''dicarlo.Majaj2015.V4''"
    by (simp add: str_contains_sublist [symmetric])
  have l2: "load_benchmark example_env (benchmark ?tm) = Inr (PyObj True 2)"
    by (simp add: load_benchmark_def example_env_def example_resolved_def)
  have c2: "compute_activations example_env ?tm (PyObj True 2) = Inr 0"
    by (simp add: compute_activations_def example_env_def)
  have i2: "benchmark_identifier ?tm = PyStr ''dicarlo.Kar2018.temporal''"
    by (simp add: example_resolved_def)
  have n2: "sublist ''temporal'' ''dicarlo.Kar2018.temporal''"
    by (simp add: str_contains_sublist [symmetric])
  from private_score_model_layer_product [OF l1 c1 i1] n1
  have r1: "private_score_model example_env ?v4
      = cartesian_product example_env [''layer''] 0 (apply_benchmark example_env (PyObj True 4))"
    by blast
  from private_score_model_layer_product [OF l2 c2 i2] n2
  have r2: "private_score_model example_env ?tm = apply_benchmark example_env (PyObj True 2) 0"
    by blast
  have v1: "cartesian_product example_env [''layer''] 0 (apply_benchmark example_env (PyObj True 4))
      = Inr (LayerScore [(''fc6'', 2 / 5, 1 / 100), (''fc7'', 1 / 2, 1 / 100)])"
    by (simp add: example_env_def example_table_def)
  have v2: "apply_benchmark example_env (PyObj True 2) 0 = Inr (OtherScore 2)"
    by (simp add: example_env_def)
  show ?thesis using l1 c1 n1 l2 c2 n2 r1 r2 v1 v2 by simp
qed

text \<open>
  C1, as the code has it. When the argument checks of lines 25 to 36 pass, the resolved
  benchmark identifier is \<^verbatim>\<open>benchmark_identifier or benchmark\<close>: the identifier when it is
  truthy, the benchmark argument when the identifier is \<^verbatim>\<open>None\<close> or any other falsy value;
  \<^verbatim>\<open>score_model\<close> returns the result of \<^verbatim>\<open>BrainScore\<close> when this value is the string
  \<^verbatim>\<open>brain-score\<close> and the result of \<^verbatim>\<open>_score_model\<close> on the given model and benchmark
  otherwise.
\<close>
theorem score_model_dispatch:
  assumes "score_model_arguments e a = Inr r"
  shows "benchmark_identifier r = py_or (benchmark_identifier a) (benchmark a)
       \<and> model r = model a \<and> benchmark r = benchmark a
       \<and> (py_or (benchmark_identifier a) (benchmark a) = PyStr ''brain-score'' \<longrightarrow>
            score_model e a = BrainScore_call e r)
       \<and> (py_or (benchmark_identifier a) (benchmark a) \<noteq> PyStr ''brain-score'' \<longrightarrow>
            score_model e a = private_score_model e r)"
proof -
  from assms obtain r0 where r0: "resolve_identifiers e a = Inr r0" and r: "resolve_image_size e r0 = Inr r"
    by (auto simp: score_model_arguments_def split: sum.splits)
  from r0 have "benchmark_identifier r0 = py_or (benchmark_identifier a) (benchmark a)
      \<and> model r0 = model a \<and> benchmark r0 = benchmark a"
    by (auto simp: resolve_identifiers_def split: sum.splits if_splits)
  moreover from r have "benchmark_identifier r = benchmark_identifier r0 \<and> model r = model r0
      \<and> benchmark r = benchmark r0"
    by (auto simp: resolve_image_size_def split: sum.splits if_splits)
  ultimately have fields: "benchmark_identifier r = py_or (benchmark_identifier a) (benchmark a)
      \<and> model r = model a \<and> benchmark r = benchmark a"
    by simp
  then show ?thesis using assms by simp
qed

text \<open>
  Both branches at the concrete environment: the default benchmark goes to \<^verbatim>\<open>BrainScore\<close>,
  the benchmark \<^verbatim>\<open>dicarlo.Majaj2015.V4\<close> to \<^verbatim>\<open>_score_model\<close>.
\<close>
theorem score_model_dispatch_witness:
  "score_model_arguments example_env example_args = Inr (example_resolved ''brain-score'')
   \<and> score_model example_env example_args = BrainScore_call example_env (example_resolved ''brain-score'')
   \<and> score_model_arguments example_env (example_args\<lparr>benchmark := PyStr ''dicarlo.Majaj2015.V4''\<rparr>)
       = Inr (example_resolved ''dicarlo.Majaj2015.V4'')
   \<and> score_model example_env (example_args\<lparr>benchmark := PyStr ''dicarlo.Majaj2015.V4''\<rparr>)
       = private_score_model example_env (example_resolved ''dicarlo.Majaj2015.V4'')"
proof -
  have a1: "score_model_arguments example_env example_args = Inr (example_resolved ''brain-score'')"
    by (simp add: score_model_arguments_def resolve_identifiers_def resolve_layers_def
        resolve_image_size_def py_or_def example_env_def example_args_def Defaults_benchmark_def example_resolved_def)
  have a2: "score_model_arguments example_env (example_args\<lparr>benchmark := PyStr ''dicarlo.Majaj2015.V4''\<rparr>)
       = Inr (example_resolved ''dicarlo.Majaj2015.V4'')"
    by (simp add: score_model_arguments_def resolve_identifiers_def resolve_layers_def
        resolve_image_size_def py_or_def example_env_def example_args_def Defaults_benchmark_def example_resolved_def)
  have p1: "py_or (benchmark_identifier example_args) (benchmark example_args) = PyStr ''brain-score''"
    by (simp add: py_or_def example_args_def Defaults_benchmark_def)
  have p2: "py_or (benchmark_identifier (example_args\<lparr>benchmark := PyStr ''dicarlo.Majaj2015.V4''\<rparr>))
              (benchmark (example_args\<lparr>benchmark := PyStr ''dicarlo.Majaj2015.V4''\<rparr>)) \<noteq> PyStr ''brain-score''"
    by (simp add: py_or_def example_args_def Defaults_benchmark_def)
  from score_model_dispatch [OF a1] p1
  have "score_model example_env example_args = BrainScore_call example_env (example_resolved ''brain-score'')"
    by blast
  moreover from score_model_dispatch [OF a2] p2
  have "score_model example_env (example_args\<lparr>benchmark := PyStr ''dicarlo.Majaj2015.V4''\<rparr>)
       = private_score_model example_env (example_resolved ''dicarlo.Majaj2015.V4'')"
    by blast
  ultimately show ?thesis using a1 a2 by simp
qed

text \<open>
  C1 as stated fails for \<^verbatim>\<open>score_model('alexnet', benchmark_identifier='')\<close>: the
  identifier is not \<^verbatim>\<open>None\<close> and is not \<^verbatim>\<open>brain-score\<close>, so the stated rule selects
  \<^verbatim>\<open>_score_model\<close> (which fails to load a benchmark named \<^verbatim>\<open>brain-score\<close> here), yet the
  empty string is falsy, the benchmark default \<^verbatim>\<open>brain-score\<close> replaces it, and the call
  returns the score of \<^verbatim>\<open>BrainScore\<close>.
\<close>
theorem score_model_dispatch_counterexample:
  "benchmark_identifier (example_args\<lparr>benchmark_identifier := PyStr []\<rparr>) \<noteq> PyNone
   \<and> benchmark_identifier (example_args\<lparr>benchmark_identifier := PyStr []\<rparr>) \<noteq> PyStr ''brain-score''
   \<and> score_model example_env (example_args\<lparr>benchmark_identifier := PyStr []\<rparr>)
       = BrainScore_call example_env (example_resolved ''brain-score'')
   \<and> score_model example_env (example_args\<lparr>benchmark_identifier := PyStr []\<rparr>)
       = Inr (CenterScore (11 / 20)
           [(''dicarlo.Majaj2015.V4'', [(''fc6'', 2 / 5, 1 / 100), (''fc7'', 1 / 2, 1 / 100)]),
            (''dicarlo.Majaj2015.IT'', [(''fc6'', 3 / 5, 1 / 100), (''fc7'', 3 / 10, 1 / 100)])])
   \<and> private_score_model example_env ((example_resolved ''brain-score'')\<lparr>benchmark_identifier := PyStr []\<rparr>)
       = Inl KeyError"
  by (simp add: example_simps)

subsection \<open>Which calls raise an assertion\<close>

lemma raises_assertion_iff: "raises_assertion r \<longleftrightarrow> (\<exists>m. r = Inl (AssertionError m))"
  by (auto simp: raises_assertion_def split: sum.splits exn.splits)

lemma py_or_None: "py_or a b = PyNone \<longleftrightarrow> \<not> truthy a \<and> b = PyNone"
  by (cases a) (auto simp: py_or_def)

lemma py_or_falsy: "\<not> truthy a \<Longrightarrow> py_or a b = b"
  by (simp add: py_or_def)

lemma private_score_model_no_assertion:
  assumes "collaborators_assertion_free e"
  shows "private_score_model e a \<noteq> Inl (AssertionError m)"
proof -
  from assms have
    l: "\<And>s. benchmarks_load e s \<noteq> Inl (AssertionError m)" and
    s: "\<And>b. stimulus_set_name e b \<noteq> Inl (AssertionError m)" and
    a: "\<And>mo i w l p s stim. model_multi_activations e mo i w l p s stim \<noteq> Inl (AssertionError m)" and
    b: "\<And>b asm. apply_benchmark e b asm \<noteq> Inl (AssertionError m)" and
    c: "\<And>d asm b. cartesian_product e d asm (apply_benchmark e b) \<noteq> Inl (AssertionError m)"
    by (auto simp: collaborators_assertion_free_def raises_assertion_iff)
  have lb: "load_benchmark e v \<noteq> Inl (AssertionError m)" for v
    using l by (simp add: load_benchmark_def split: pyval.splits)
  have ca: "compute_activations e a v \<noteq> Inl (AssertionError m)" for v
    using s a by (auto simp: compute_activations_def split: sum.splits)
  show ?thesis
    using lb ca b c
    by (auto simp: private_score_model_def split: sum.splits pyval.splits)
qed

lemma resolve_image_size_no_assertion:
  assumes "collaborators_assertion_free e"
  shows "resolve_image_size e r \<noteq> Inl (AssertionError m)"
proof -
  from assms have "\<And>v. infer_image_size e v \<noteq> Inl (AssertionError m)"
    by (auto simp: collaborators_assertion_free_def raises_assertion_iff)
  then show ?thesis
    by (auto simp: resolve_image_size_def split: sum.splits)
qed

lemma resolve_image_size_fields:
  assumes "resolve_image_size e r0 = Inr r"
  shows "model r = model r0 \<and> model_identifier r = model_identifier r0 \<and> layers r = layers r0
       \<and> benchmark r = benchmark r0 \<and> benchmark_identifier r = benchmark_identifier r0"
  using assms by (auto simp: resolve_image_size_def split: sum.splits if_splits)

lemma resolve_image_size_Inr_iff:
  "(\<exists>r. resolve_image_size e r0 = Inr r) \<longleftrightarrow>
     truthy (image_size r0) \<or> (\<exists>sz. infer_image_size e (model_identifier r0) = Inr sz)"
  by (auto simp: resolve_image_size_def split: sum.splits)

lemma resolve_identifiers_assertion_iff:
  "(\<exists>m. resolve_identifiers e a = Inl (AssertionError m)) \<longleftrightarrow>
     (layers a = None \<and> \<not> is_str (model a))
   \<or> ((layers a \<noteq> None \<or> (\<exists>m. model a = PyStr m \<and> model_layers e m \<noteq> None))
       \<and> ((model_identifier a = PyNone \<and> \<not> is_str (model a))
          \<or> (benchmark_identifier a = PyNone \<and> \<not> is_str (benchmark a))))"
  by (cases "model a"; cases "layers a")
     (auto simp: resolve_identifiers_def resolve_layers_def split: option.splits)

lemma resolve_identifiers_Inr_iff:
  "resolve_identifiers e a = Inr r \<longleftrightarrow>
     (\<exists>ls. resolve_layers e a = Inr ls
        \<and> (model_identifier a \<noteq> PyNone \<or> is_str (model a))
        \<and> (benchmark_identifier a \<noteq> PyNone \<or> is_str (benchmark a))
        \<and> r = a\<lparr>layers := Some ls, model_identifier := py_or (model_identifier a) (model a),
                 benchmark_identifier := py_or (benchmark_identifier a) (benchmark a)\<rparr>)"
  by (auto simp: resolve_identifiers_def split: sum.splits)

lemma resolve_layers_Inr_iff:
  "(\<exists>ls. resolve_layers e a = Inr ls) \<longleftrightarrow>
     layers a \<noteq> None \<or> (\<exists>m. model a = PyStr m \<and> model_layers e m \<noteq> None)"
  by (cases "model a"; cases "layers a") (auto simp: resolve_layers_def split: option.splits)

lemma best_score_no_assertion: "best_score bs \<noteq> Inl (AssertionError m)"
  by (auto simp: best_score_def argmax_def split: score.splits list.splits sum.splits)

lemma sequence_best_score_no_assertion:
  "sequence (map best_score xs) \<noteq> Inl (AssertionError m)"
proof (induction xs)
  case Nil
  then show ?case by simp
next
  case (Cons x xs)
  then show ?case
    using best_score_no_assertion [of x m]
    by (cases "best_score x") (auto split: sum.splits)
qed

lemma reentered_call_assertion_iff:
  assumes "collaborators_assertion_free e" and "layers r = Some ls" and "b \<noteq> ''brain-score''"
  shows "(\<exists>m. score_model e (r\<lparr>benchmark := PyStr b, benchmark_identifier := PyNone\<rparr>) = Inl (AssertionError m))
         \<longleftrightarrow> model_identifier r = PyNone \<and> \<not> is_str (model r)"
proof (cases "model_identifier r = PyNone \<and> \<not> is_str (model r)")
  case True
  then have "resolve_identifiers e (r\<lparr>benchmark := PyStr b, benchmark_identifier := PyNone\<rparr>)
      = Inl (AssertionError ''need either known model string or model_identifier'')"
    using assms(2) by (simp add: resolve_identifiers_def resolve_layers_def)
  then have "score_model e (r\<lparr>benchmark := PyStr b, benchmark_identifier := PyNone\<rparr>)
      = Inl (AssertionError ''need either known model string or model_identifier'')"
    by (simp add: score_model_arguments_def)
  with True show ?thesis by blast
next
  case False
  let ?rb = "r\<lparr>benchmark := PyStr b, benchmark_identifier := PyNone\<rparr>"
  let ?r0 = "?rb\<lparr>layers := Some ls, model_identifier := py_or (model_identifier r) (model r),
                 benchmark_identifier := PyStr b\<rparr>"
  from False assms(2) have r0: "resolve_identifiers e ?rb = Inr ?r0"
    by (auto simp: resolve_identifiers_def resolve_layers_def py_or_def)
  have "score_model e ?rb \<noteq> Inl (AssertionError m)" for m
  proof (cases "resolve_image_size e ?r0")
    case (Inl x)
    with resolve_image_size_no_assertion [OF assms(1), of ?r0 m] r0 show ?thesis
      by (simp add: score_model_arguments_def)
  next
    case (Inr r')
    from resolve_image_size_fields [OF Inr] have "benchmark_identifier r' = PyStr b" by simp
    with Inr r0 assms(3) have "score_model e ?rb = private_score_model e r'"
      by (simp add: score_model_arguments_def)
    with private_score_model_no_assertion [OF assms(1)] show ?thesis by simp
  qed
  with False show ?thesis by blast
qed

lemma BrainScore_call_assertion_iff:
  assumes "collaborators_assertion_free e" and "layers r = Some ls"
  shows "(\<exists>m. BrainScore_call e r = Inl (AssertionError m))
         \<longleftrightarrow> model_identifier r = PyNone \<and> \<not> is_str (model r)"
proof -
  define v4 where
    "v4 = score_model e (r\<lparr>benchmark := PyStr ''dicarlo.Majaj2015.V4'', benchmark_identifier := PyNone\<rparr>)"
  define it where
    "it = score_model e (r\<lparr>benchmark := PyStr ''dicarlo.Majaj2015.IT'', benchmark_identifier := PyNone\<rparr>)"
  have v4: "(\<exists>m. v4 = Inl (AssertionError m)) \<longleftrightarrow> model_identifier r = PyNone \<and> \<not> is_str (model r)"
    unfolding v4_def by (rule reentered_call_assertion_iff [OF assms]) simp
  have it: "(\<exists>m. it = Inl (AssertionError m)) \<longleftrightarrow> model_identifier r = PyNone \<and> \<not> is_str (model r)"
    unfolding it_def by (rule reentered_call_assertion_iff [OF assms]) simp
  have unfold: "BrainScore_call e r =
     (case sequence [case v4 of Inl x \<Rightarrow> Inl x | Inr s \<Rightarrow> Inr (''dicarlo.Majaj2015.V4'', s),
                     case it of Inl x \<Rightarrow> Inl x | Inr s \<Rightarrow> Inr (''dicarlo.Majaj2015.IT'', s)] of
        Inl x \<Rightarrow> Inl x
      | Inr benchmark_scores \<Rightarrow>
          (case sequence (map best_score benchmark_scores) of
             Inl x \<Rightarrow> Inl x
           | Inr scores \<Rightarrow>
               Inr (CenterScore (mean (map (\<lambda>s. center (snd s)) scores))
                      (map (\<lambda>bs. (fst bs, raw_rows (snd bs))) benchmark_scores))))"
    unfolding v4_def it_def
    by (subst BrainScore_call.simps) (simp only: benchmark_identifiers_def list.map)
  show ?thesis
  proof (cases "model_identifier r = PyNone \<and> \<not> is_str (model r)")
    case True
    with v4 obtain m where "v4 = Inl (AssertionError m)" by blast
    then have "BrainScore_call e r = Inl (AssertionError m)"
      unfolding unfold by simp
    with True show ?thesis by blast
  next
    case False
    with v4 it have n4: "\<And>m. v4 \<noteq> Inl (AssertionError m)" and n5: "\<And>m. it \<noteq> Inl (AssertionError m)"
      by blast+
    have "BrainScore_call e r \<noteq> Inl (AssertionError m)" for m
    proof (cases v4)
      case (Inl x)
      with n4 [of m] show ?thesis unfolding unfold by simp
    next
      case a: (Inr s4)
      show ?thesis
      proof (cases it)
        case (Inl x)
        with a n5 [of m] show ?thesis unfolding unfold by simp
      next
        case b: (Inr s5)
        have "sequence (map best_score [(''dicarlo.Majaj2015.V4'', s4), (''dicarlo.Majaj2015.IT'', s5)])
            \<noteq> Inl (AssertionError m)"
          by (rule sequence_best_score_no_assertion)
        with a b show ?thesis unfolding unfold by (auto split: sum.splits)
      qed
    qed
    with False show ?thesis by blast
  qed
qed

lemma dispatch_assertion_iff:
  assumes "collaborators_assertion_free e" and "resolve_identifiers e a = Inr r0"
  shows "(\<exists>m. score_model e a = Inl (AssertionError m)) \<longleftrightarrow>
           (truthy (image_size r0) \<or> (\<exists>sz. infer_image_size e (model_identifier r0) = Inr sz))
         \<and> benchmark_identifier r0 = PyStr ''brain-score''
         \<and> model_identifier r0 = PyNone \<and> \<not> is_str (model r0)"
proof (cases "resolve_image_size e r0")
  case (Inl x)
  then have "score_model e a = Inl x"
    using assms(2) by (simp add: score_model_arguments_def)
  moreover from Inl have "x \<noteq> AssertionError m" for m
    using resolve_image_size_no_assertion [OF assms(1), of r0 m] by auto
  moreover from Inl have "\<not> (truthy (image_size r0) \<or> (\<exists>sz. infer_image_size e (model_identifier r0) = Inr sz))"
    using resolve_image_size_Inr_iff [of e r0] by auto
  ultimately show ?thesis by auto
next
  case (Inr r)
  then have sz: "truthy (image_size r0) \<or> (\<exists>sz. infer_image_size e (model_identifier r0) = Inr sz)"
    using resolve_image_size_Inr_iff [of e r0] by blast
  from assms(2) obtain ls where "layers r0 = Some ls"
    by (auto simp: resolve_identifiers_Inr_iff)
  with resolve_image_size_fields [OF Inr] have f: "layers r = Some ls" "model r = model r0"
    "model_identifier r = model_identifier r0" "benchmark_identifier r = benchmark_identifier r0"
    by simp_all
  show ?thesis
  proof (cases "benchmark_identifier r0 = PyStr ''brain-score''")
    case True
    with Inr assms(2) f have "score_model e a = BrainScore_call e r"
      by (simp add: score_model_arguments_def)
    with BrainScore_call_assertion_iff [OF assms(1) f(1)] f True sz show ?thesis by simp
  next
    case False
    with Inr assms(2) f have "score_model e a = private_score_model e r"
      by (simp add: score_model_arguments_def)
    with private_score_model_no_assertion [OF assms(1)] False show ?thesis by simp
  qed
qed

lemma example_env_assertion_free: "collaborators_assertion_free example_env"
  by (auto simp: collaborators_assertion_free_def raises_assertion_def example_env_def
      split: pyval.splits sum.splits score.splits exn.splits)

text \<open>
  C3, as the code has it. Provided no collaborator raises an \<^verbatim>\<open>AssertionError\<close> of its
  own, \<^verbatim>\<open>score_model\<close> raises \<^verbatim>\<open>AssertionError\<close> exactly in three cases. First, \<^verbatim>\<open>layers\<close>
  is \<^verbatim>\<open>None\<close> and the model is no string. Second, the layers are available (given, or
  found in \<^verbatim>\<open>model_layers\<close> for a model string) and either \<^verbatim>\<open>model_identifier\<close> is
  \<^verbatim>\<open>None\<close> with a model that is no string, or \<^verbatim>\<open>benchmark_identifier\<close> is \<^verbatim>\<open>None\<close> with
  a benchmark that is no string. Third, the checks pass and the call reaches
  \<^verbatim>\<open>BrainScore\<close> with the model identifier resolved to \<^verbatim>\<open>None\<close>: the layers are given, the
  model is \<^verbatim>\<open>None\<close>, \<^verbatim>\<open>model_identifier\<close> is falsy but not \<^verbatim>\<open>None\<close>, the resolved
  benchmark identifier is \<^verbatim>\<open>brain-score\<close> and the image size is given or inferred; then
  the call re-entered through \<^verbatim>\<open>BrainScore\<close> fails the assertion of line 29.
\<close>
theorem score_model_assertion_iff:
  assumes "collaborators_assertion_free e"
  shows "raises_assertion (score_model e a) \<longleftrightarrow>
     (layers a = None \<and> \<not> is_str (model a))
   \<or> ((layers a \<noteq> None \<or> (\<exists>m. model a = PyStr m \<and> model_layers e m \<noteq> None))
       \<and> ((model_identifier a = PyNone \<and> \<not> is_str (model a))
          \<or> (benchmark_identifier a = PyNone \<and> \<not> is_str (benchmark a))))
   \<or> (layers a \<noteq> None \<and> model a = PyNone
       \<and> model_identifier a \<noteq> PyNone \<and> \<not> truthy (model_identifier a)
       \<and> (benchmark_identifier a \<noteq> PyNone \<or> is_str (benchmark a))
       \<and> py_or (benchmark_identifier a) (benchmark a) = PyStr ''brain-score''
       \<and> (truthy (image_size a) \<or> (\<exists>sz. infer_image_size e PyNone = Inr sz)))"
proof -
  have "(\<exists>m. score_model e a = Inl (AssertionError m)) \<longleftrightarrow>
     (layers a = None \<and> \<not> is_str (model a))
   \<or> ((layers a \<noteq> None \<or> (\<exists>m. model a = PyStr m \<and> model_layers e m \<noteq> None))
       \<and> ((model_identifier a = PyNone \<and> \<not> is_str (model a))
          \<or> (benchmark_identifier a = PyNone \<and> \<not> is_str (benchmark a))))
   \<or> (layers a \<noteq> None \<and> model a = PyNone
       \<and> model_identifier a \<noteq> PyNone \<and> \<not> truthy (model_identifier a)
       \<and> (benchmark_identifier a \<noteq> PyNone \<or> is_str (benchmark a))
       \<and> py_or (benchmark_identifier a) (benchmark a) = PyStr ''brain-score''
       \<and> (truthy (image_size a) \<or> (\<exists>sz. infer_image_size e PyNone = Inr sz)))"
  proof (cases "resolve_identifiers e a")
  case (Inl x)
  then have sm: "score_model e a = Inl x"
    by (simp add: score_model_arguments_def)
  from Inl have "\<not> (\<exists>ls. resolve_layers e a = Inr ls
        \<and> (model_identifier a \<noteq> PyNone \<or> is_str (model a))
        \<and> (benchmark_identifier a \<noteq> PyNone \<or> is_str (benchmark a)))"
    using resolve_identifiers_Inr_iff [of e a] by auto
  then have no_reentry: "\<not> (layers a \<noteq> None \<and> model a = PyNone \<and> model_identifier a \<noteq> PyNone
      \<and> (benchmark_identifier a \<noteq> PyNone \<or> is_str (benchmark a)))"
    using resolve_layers_Inr_iff [of e a] by auto
  from Inl sm resolve_identifiers_assertion_iff [of e a] no_reentry show ?thesis
    by auto
next
  case (Inr r0)
  then obtain ls where ls: "resolve_layers e a = Inr ls"
    and mi: "model_identifier a \<noteq> PyNone \<or> is_str (model a)"
    and bi: "benchmark_identifier a \<noteq> PyNone \<or> is_str (benchmark a)"
    and r0: "r0 = a\<lparr>layers := Some ls, model_identifier := py_or (model_identifier a) (model a),
                 benchmark_identifier := py_or (benchmark_identifier a) (benchmark a)\<rparr>"
    by (auto simp: resolve_identifiers_Inr_iff)
  from ls have av: "layers a \<noteq> None \<or> (\<exists>m. model a = PyStr m \<and> model_layers e m \<noteq> None)"
    using resolve_layers_Inr_iff [of e a] by blast
  from Inr have na: "\<not> (\<exists>m. resolve_identifiers e a = Inl (AssertionError m))" by simp
  have "(\<exists>m. score_model e a = Inl (AssertionError m)) \<longleftrightarrow>
           (truthy (image_size a) \<or> (\<exists>sz. infer_image_size e (py_or (model_identifier a) (model a)) = Inr sz))
         \<and> py_or (benchmark_identifier a) (benchmark a) = PyStr ''brain-score''
         \<and> py_or (model_identifier a) (model a) = PyNone \<and> \<not> is_str (model a)"
    using dispatch_assertion_iff [OF assms Inr] by (simp add: r0)
  also have "\<dots> \<longleftrightarrow>
       (layers a \<noteq> None \<and> model a = PyNone
       \<and> model_identifier a \<noteq> PyNone \<and> \<not> truthy (model_identifier a)
       \<and> (benchmark_identifier a \<noteq> PyNone \<or> is_str (benchmark a))
       \<and> py_or (benchmark_identifier a) (benchmark a) = PyStr ''brain-score''
       \<and> (truthy (image_size a) \<or> (\<exists>sz. infer_image_size e PyNone = Inr sz)))"
    using mi bi av by (auto simp: py_or_None py_or_falsy)
  finally show ?thesis
    using na resolve_identifiers_assertion_iff [of e a] by blast
qed
  then show ?thesis by (simp only: raises_assertion_iff)
qed

text \<open>
  A model object without layers fails the first assertion; the call
  \<^verbatim>\<open>score_model('alexnet')\<close> raises no assertion; and
  \<^verbatim>\<open>score_model(None, model_identifier='', layers=['fc6'], image_size=224)\<close> fails in the
  re-entered call.
\<close>
theorem score_model_assertion_iff_witness:
  "collaborators_assertion_free example_env
   \<and> layers (example_args\<lparr>model := PyObj True 1\<rparr>) = None
   \<and> \<not> is_str (model (example_args\<lparr>model := PyObj True 1\<rparr>))
   \<and> raises_assertion (score_model example_env (example_args\<lparr>model := PyObj True 1\<rparr>))
   \<and> \<not> raises_assertion (score_model example_env example_args)
   \<and> raises_assertion (score_model example_env
         (example_args\<lparr>model := PyNone, model_identifier := PyStr [], layers := Some [''fc6''],
            image_size := PyInt 224\<rparr>))"
proof -
  let ?a = "example_args\<lparr>model := PyObj True 1\<rparr>"
  let ?n = "example_args\<lparr>model := PyNone, model_identifier := PyStr [], layers := Some [''fc6''],
            image_size := PyInt 224\<rparr>"
  note free = example_env_assertion_free
  have c: "layers ?a = None \<and> \<not> is_str (model ?a)"
    by (simp add: example_args_def)
  with score_model_assertion_iff [OF free, of ?a]
  have r1: "raises_assertion (score_model example_env ?a)"
    by blast
  have "\<not> ((layers example_args = None \<and> \<not> is_str (model example_args))
      \<or> ((layers example_args \<noteq> None
            \<or> (\<exists>m. model example_args = PyStr m \<and> model_layers example_env m \<noteq> None))
          \<and> ((model_identifier example_args = PyNone \<and> \<not> is_str (model example_args))
             \<or> (benchmark_identifier example_args = PyNone \<and> \<not> is_str (benchmark example_args))))
      \<or> (layers example_args \<noteq> None \<and> model example_args = PyNone
          \<and> model_identifier example_args \<noteq> PyNone \<and> \<not> truthy (model_identifier example_args)
          \<and> (benchmark_identifier example_args \<noteq> PyNone \<or> is_str (benchmark example_args))
          \<and> py_or (benchmark_identifier example_args) (benchmark example_args) = PyStr ''brain-score''
          \<and> (truthy (image_size example_args) \<or> (\<exists>sz. infer_image_size example_env PyNone = Inr sz))))"
    by (simp add: example_args_def Defaults_benchmark_def)
  with score_model_assertion_iff [OF free, of example_args]
  have r2: "\<not> raises_assertion (score_model example_env example_args)"
    by blast
  have "layers ?n \<noteq> None \<and> model ?n = PyNone
       \<and> model_identifier ?n \<noteq> PyNone \<and> \<not> truthy (model_identifier ?n)
       \<and> (benchmark_identifier ?n \<noteq> PyNone \<or> is_str (benchmark ?n))
       \<and> py_or (benchmark_identifier ?n) (benchmark ?n) = PyStr ''brain-score''
       \<and> (truthy (image_size ?n) \<or> (\<exists>sz. infer_image_size example_env PyNone = Inr sz))"
    by (simp add: example_args_def Defaults_benchmark_def py_or_def)
  with score_model_assertion_iff [OF free, of ?n]
  have r3: "raises_assertion (score_model example_env ?n)"
    by blast
  from free c r1 r2 r3 show ?thesis by blast
qed

text \<open>
  C3 as stated fails for a model string that \<^verbatim>\<open>model_layers\<close> does not know, with a
  benchmark object and no \<^verbatim>\<open>benchmark_identifier\<close>: the third condition of the claim
  holds, but the lookup in line 27 raises \<^verbatim>\<open>KeyError\<close> before the assertion of line 32
  is reached.
\<close>
theorem score_model_assertion_iff_counterexample:
  "benchmark_identifier (example_args\<lparr>model := PyStr ''unknown-model'', benchmark := PyObj True 7\<rparr>) = PyNone
   \<and> \<not> is_str (benchmark (example_args\<lparr>model := PyStr ''unknown-model'', benchmark := PyObj True 7\<rparr>))
   \<and> score_model example_env (example_args\<lparr>model := PyStr ''unknown-model'', benchmark := PyObj True 7\<rparr>)
       = Inl KeyError"
  by (simp add: example_simps)

text \<open>
  C9, as the code has it. Provided the layers are available and no collaborator raises
  an \<^verbatim>\<open>AssertionError\<close> of its own: an empty string as \<^verbatim>\<open>model_identifier\<close> passes the
  assertion of line 29 and is replaced by the model argument, which is the identifier
  the call goes on with, and if the model is not \<^verbatim>\<open>None\<close> the call raises no assertion
  at all (the benchmark check being satisfied); likewise an empty
  \<^verbatim>\<open>benchmark_identifier\<close> is replaced by the benchmark argument.
\<close>
theorem empty_identifier_replaced:
  assumes "collaborators_assertion_free e" and "resolve_layers e a = Inr ls"
  shows "(model_identifier a = PyStr [] \<and> (benchmark_identifier a \<noteq> PyNone \<or> is_str (benchmark a)) \<longrightarrow>
            resolve_identifiers e a =
              Inr (a\<lparr>layers := Some ls, model_identifier := model a,
                     benchmark_identifier := py_or (benchmark_identifier a) (benchmark a)\<rparr>)
            \<and> (\<forall>r. score_model_arguments e a = Inr r \<longrightarrow> model_identifier r = model a)
            \<and> (model a \<noteq> PyNone \<longrightarrow> \<not> raises_assertion (score_model e a)))
       \<and> (benchmark_identifier a = PyStr [] \<and> (model_identifier a \<noteq> PyNone \<or> is_str (model a)) \<longrightarrow>
            resolve_identifiers e a =
              Inr (a\<lparr>layers := Some ls, model_identifier := py_or (model_identifier a) (model a),
                     benchmark_identifier := benchmark a\<rparr>))"
proof -
  have first: "resolve_identifiers e a =
              Inr (a\<lparr>layers := Some ls, model_identifier := model a,
                     benchmark_identifier := py_or (benchmark_identifier a) (benchmark a)\<rparr>)
            \<and> (\<forall>r. score_model_arguments e a = Inr r \<longrightarrow> model_identifier r = model a)
            \<and> (model a \<noteq> PyNone \<longrightarrow> \<not> raises_assertion (score_model e a))"
    if h: "model_identifier a = PyStr [] \<and> (benchmark_identifier a \<noteq> PyNone \<or> is_str (benchmark a))"
  proof -
    let ?r0 = "a\<lparr>layers := Some ls, model_identifier := model a,
                  benchmark_identifier := py_or (benchmark_identifier a) (benchmark a)\<rparr>"
    from h have "py_or (model_identifier a) (model a) = model a"
      by (simp add: py_or_def)
    with h assms(2) have r0: "resolve_identifiers e a = Inr ?r0"
      by (simp add: resolve_identifiers_Inr_iff)
    have passed: "model_identifier r = model a" if "score_model_arguments e a = Inr r" for r
    proof -
      from that r0 have "resolve_image_size e ?r0 = Inr r"
        by (simp add: score_model_arguments_def)
      from resolve_image_size_fields [OF this] show ?thesis by simp
    qed
    have quiet: "\<not> raises_assertion (score_model e a)" if "model a \<noteq> PyNone"
    proof -
      have "model_identifier ?r0 = model a" by simp
      with dispatch_assertion_iff [OF assms(1) r0] that
      have "\<not> (\<exists>m. score_model e a = Inl (AssertionError m))" by simp
      then show ?thesis unfolding raises_assertion_iff .
    qed
    from r0 passed quiet show ?thesis by blast
  qed
  have second: "resolve_identifiers e a =
              Inr (a\<lparr>layers := Some ls, model_identifier := py_or (model_identifier a) (model a),
                     benchmark_identifier := benchmark a\<rparr>)"
    if h: "benchmark_identifier a = PyStr [] \<and> (model_identifier a \<noteq> PyNone \<or> is_str (model a))"
  proof -
    from h have "py_or (benchmark_identifier a) (benchmark a) = benchmark a"
      by (simp add: py_or_def)
    with h assms(2) show ?thesis
      by (simp add: resolve_identifiers_Inr_iff)
  qed
  from first second show ?thesis by blast
qed

text \<open>
  A model object with \<^verbatim>\<open>model_identifier=''\<close> and layers given: the object becomes the
  identifier and no assertion fires.
\<close>
theorem empty_identifier_replaced_witness:
  "collaborators_assertion_free example_env
   \<and> resolve_layers example_env (example_args\<lparr>model := PyObj True 1, model_identifier := PyStr [],
       layers := Some [''fc6'']\<rparr>) = Inr [''fc6'']
   \<and> resolve_identifiers example_env (example_args\<lparr>model := PyObj True 1, model_identifier := PyStr [],
       layers := Some [''fc6'']\<rparr>)
       = Inr (example_args\<lparr>model := PyObj True 1, model_identifier := PyObj True 1,
               layers := Some [''fc6''], benchmark_identifier := PyStr ''brain-score''\<rparr>)
   \<and> \<not> raises_assertion (score_model example_env (example_args\<lparr>model := PyObj True 1,
       model_identifier := PyStr [], layers := Some [''fc6'']\<rparr>))"
proof -
  let ?a = "example_args\<lparr>model := PyObj True 1, model_identifier := PyStr [], layers := Some [''fc6'']\<rparr>"
  note free = example_env_assertion_free
  have l: "resolve_layers example_env ?a = Inr [''fc6'']"
    by (simp add: resolve_layers_def)
  have h: "model_identifier ?a = PyStr [] \<and> (benchmark_identifier ?a \<noteq> PyNone \<or> is_str (benchmark ?a))"
    by (simp add: example_args_def)
  have m: "model ?a \<noteq> PyNone" by simp
  from empty_identifier_replaced [OF free l] h m
  have "resolve_identifiers example_env ?a =
      Inr (?a\<lparr>layers := Some [''fc6''], model_identifier := model ?a,
              benchmark_identifier := py_or (benchmark_identifier ?a) (benchmark ?a)\<rparr>)"
    and n: "\<not> raises_assertion (score_model example_env ?a)"
    by blast+
  then show ?thesis using free l by (simp add: py_or_def example_args_def Defaults_benchmark_def)
qed

text \<open>
  C9 as stated fails for the model \<^verbatim>\<open>None\<close>, which is no string:
  \<^verbatim>\<open>score_model(None, model_identifier='', layers=['fc6'], image_size=224)\<close> passes the
  assertion of line 29 once, the fallback \<^verbatim>\<open>'' or None\<close> gives the identifier \<^verbatim>\<open>None\<close>,
  and the call re-entered through \<^verbatim>\<open>BrainScore\<close> fails that assertion.
\<close>
theorem empty_identifier_replaced_counterexample:
  "\<not> is_str (model (example_args\<lparr>model := PyNone, model_identifier := PyStr [],
        layers := Some [''fc6''], image_size := PyInt 224\<rparr>))
   \<and> model_identifier (example_args\<lparr>model := PyNone, model_identifier := PyStr [],
        layers := Some [''fc6''], image_size := PyInt 224\<rparr>) = PyStr []
   \<and> score_model example_env (example_args\<lparr>model := PyNone, model_identifier := PyStr [],
        layers := Some [''fc6''], image_size := PyInt 224\<rparr>)
       = Inl (AssertionError ''need either known model string or model_identifier'')"
  by (simp add: example_simps)

subsection \<open>The best layer and the mean\<close>

text \<open>
  \<^verbatim>\<open>argmax\<close> returns the first index of a maximal value, \<^verbatim>\<open>best_score\<close> the row with the
  maximal \<^verbatim>\<open>center\<close>, and \<^verbatim>\<open>BrainScore\<close> the mean of the best \<^verbatim>\<open>center\<close> of its two
  benchmarks.
\<close>

lemma argmax_from_first_maximum:
  assumes "best < length pre" and "pre ! best = v"
    and "\<forall>j<length pre. pre ! j \<le> v" and "\<forall>j<best. pre ! j < v"
  shows "argmax_from best v (length pre) xs < length (pre @ xs)
       \<and> (\<forall>j<length (pre @ xs). (pre @ xs) ! j \<le> (pre @ xs) ! argmax_from best v (length pre) xs)
       \<and> (\<forall>j<argmax_from best v (length pre) xs.
             (pre @ xs) ! j < (pre @ xs) ! argmax_from best v (length pre) xs)"
  using assms
proof (induction xs arbitrary: best v pre)
  case Nil
  then show ?case by simp
next
  case (Cons x xs)
  show ?case
  proof (cases "v < x")
    case True
    have below: "pre ! j < x" if "j < length pre" for j
    proof -
      from Cons.prems(3) that have "pre ! j \<le> v" by blast
      with True show ?thesis by simp
    qed
    have h: "length pre < length (pre @ [x])" "(pre @ [x]) ! length pre = x"
      "\<forall>j<length (pre @ [x]). (pre @ [x]) ! j \<le> x" "\<forall>j<length pre. (pre @ [x]) ! j < x"
      using below by (auto simp: nth_append less_Suc_eq intro: less_imp_le)
    from Cons.IH [of "length pre" "pre @ [x]" x, OF h] True show ?thesis by simp
  next
    case False
    have h: "best < length (pre @ [x])" "(pre @ [x]) ! best = v"
      "\<forall>j<length (pre @ [x]). (pre @ [x]) ! j \<le> v" "\<forall>j<best. (pre @ [x]) ! j < v"
      using Cons.prems False by (auto simp: nth_append less_Suc_eq)
    from Cons.IH [of best "pre @ [x]" v, OF h] False show ?thesis by simp
  qed
qed

lemma argmax_first_maximum:
  assumes "argmax xs = Inr i"
  shows "i < length xs \<and> (\<forall>j<length xs. xs ! j \<le> xs ! i) \<and> (\<forall>j<i. xs ! j < xs ! i)"
proof (cases xs)
  case Nil
  with assms show ?thesis by (simp add: argmax_def)
next
  case (Cons x rest)
  with assms have i: "i = argmax_from 0 x (length [x]) rest" by (simp add: argmax_def)
  have "argmax_from 0 x (length [x]) rest < length ([x] @ rest)
       \<and> (\<forall>j<length ([x] @ rest). ([x] @ rest) ! j \<le> ([x] @ rest) ! argmax_from 0 x (length [x]) rest)
       \<and> (\<forall>j<argmax_from 0 x (length [x]) rest.
             ([x] @ rest) ! j < ([x] @ rest) ! argmax_from 0 x (length [x]) rest)"
    by (rule argmax_from_first_maximum) auto
  with i Cons show ?thesis by simp
qed

lemma argmax_nonempty: "xs \<noteq> [] \<Longrightarrow> \<exists>i. argmax xs = Inr i"
  by (cases xs) (auto simp: argmax_def)

lemma argmax_Max:
  assumes "argmax xs = Inr i"
  shows "xs ! i = Max (set xs)"
proof -
  from argmax_first_maximum [OF assms]
  have i: "i < length xs" and le: "\<forall>j<length xs. xs ! j \<le> xs ! i" by auto
  show ?thesis
  proof (rule sym, rule Max_eqI)
    show "finite (set xs)" by simp
    show "y \<le> xs ! i" if "y \<in> set xs" for y
      using that le by (auto simp: in_set_conv_nth)
    show "xs ! i \<in> set xs" using i by simp
  qed
qed

lemma best_score_maximal_center:
  assumes "rows \<noteq> []"
  shows "\<exists>row. best_score (b, LayerScore rows) = Inr (b, row) \<and> row \<in> set rows
           \<and> center row = Max (center ` set rows)"
proof -
  from assms obtain i where i: "argmax (map center rows) = Inr i"
    using argmax_nonempty [of "map center rows"] by auto
  from argmax_first_maximum [OF i] have len: "i < length rows" by simp
  from argmax_Max [OF i] len have "center (rows ! i) = Max (center ` set rows)" by simp
  with i len show ?thesis by (simp add: best_score_def)
qed

lemma BrainScore_call_mean_of_best:
  assumes v4: "score_model e (a\<lparr>benchmark := PyStr ''dicarlo.Majaj2015.V4'', benchmark_identifier := PyNone\<rparr>)
             = Inr (LayerScore rows_v4)"
    and it: "score_model e (a\<lparr>benchmark := PyStr ''dicarlo.Majaj2015.IT'', benchmark_identifier := PyNone\<rparr>)
             = Inr (LayerScore rows_it)"
    and "rows_v4 \<noteq> []" and "rows_it \<noteq> []"
  shows "BrainScore_call e a =
           Inr (CenterScore (mean [Max (center ` set rows_v4), Max (center ` set rows_it)])
                  [(''dicarlo.Majaj2015.V4'', rows_v4), (''dicarlo.Majaj2015.IT'', rows_it)])"
proof -
  from best_score_maximal_center [OF assms(3)] obtain r4 where
    r4: "best_score (''dicarlo.Majaj2015.V4'', LayerScore rows_v4) = Inr (''dicarlo.Majaj2015.V4'', r4)"
      "center r4 = Max (center ` set rows_v4)" by blast
  from best_score_maximal_center [OF assms(4)] obtain r5 where
    r5: "best_score (''dicarlo.Majaj2015.IT'', LayerScore rows_it) = Inr (''dicarlo.Majaj2015.IT'', r5)"
      "center r5 = Max (center ` set rows_it)" by blast
  show ?thesis
    using v4 it r4 r5 by (simp add: benchmark_identifiers_def)
qed

text \<open>
  C2. The score of \<^verbatim>\<open>score_model('alexnet')\<close> under the default benchmark \<^verbatim>\<open>brain-score\<close>
  at the concrete environment: the mean \<open>11 / 20\<close> of the best layers of the two neural
  benchmarks (\<open>1 / 2\<close> for V4, \<open>3 / 5\<close> for IT). The behavioral benchmark
  \<^verbatim>\<open>dicarlo.Rajalingham2018\<close> can be loaded in this environment, but it is not among the
  benchmarks of \<^verbatim>\<open>BrainScore\<close> and does not enter the score.
\<close>
theorem BrainScore_without_behavior:
  "score_model example_env example_args =
     Inr (CenterScore (11 / 20)
       [(''dicarlo.Majaj2015.V4'', [(''fc6'', 2 / 5, 1 / 100), (''fc7'', 1 / 2, 1 / 100)]),
        (''dicarlo.Majaj2015.IT'', [(''fc6'', 3 / 5, 1 / 100), (''fc7'', 3 / 10, 1 / 100)])])
   \<and> ''dicarlo.Rajalingham2018'' \<notin> set benchmark_identifiers
   \<and> benchmarks_load example_env ''dicarlo.Rajalingham2018'' = Inr (PyObj True 9)"
  by (simp add: example_simps)

section \<open>Properties of the figures\<close>

subsection \<open>Saving\<close>

lemma join_step_relative:
  assumes "\<not> starts_with sep b" and "path \<noteq> []" and "last path \<noteq> CHR ''/''"
  shows "join_step b path = path @ ''/'' @ b"
  using assms by (simp add: join_step_def sep_def)

lemma join_step_absolute: "starts_with sep b \<Longrightarrow> join_step b path = b"
  by (simp add: join_step_def)

text \<open>
  The results directory never is empty and never ends in a separator: it ends in
  \<^verbatim>\<open>results\<close>, whatever the directory of the module is.
\<close>
lemma savedir_results:
  "savedir (PaperFigures_init d) \<noteq> [] \<and> last (savedir (PaperFigures_init d)) = CHR ''s''"
  by (simp add: PaperFigures_init_def os_path_join_def join_step_def sep_def)

lemma starts_with_sep_append:
  "ext \<noteq> [] \<Longrightarrow> hd ext \<noteq> CHR ''/'' \<Longrightarrow> starts_with sep (name @ ext) = starts_with sep name"
  by (cases name; cases ext) (simp_all add: sep_def)

text \<open>
  C6, as the code has it. \<^verbatim>\<open>PaperFigures.save\<close> makes exactly three \<^verbatim>\<open>savefig\<close> calls, for
  the formats svg, pdf and png in this order. For a figure name that does not start
  with \<^verbatim>\<open>/\<close>, each path is the results directory, a separator, the name, a dot and the
  extension; for a name that starts with \<^verbatim>\<open>/\<close>, \<^verbatim>\<open>os.path.join\<close> drops the results
  directory and each path is the name, a dot and the extension.
\<close>
theorem save_three_formats:
  "(\<not> starts_with ''/'' name \<longrightarrow>
      save (PaperFigures_init d) name =
        [(savedir (PaperFigures_init d) @ ''/'' @ name @ ''.svg'', ''svg''),
         (savedir (PaperFigures_init d) @ ''/'' @ name @ ''.pdf'', ''pdf''),
         (savedir (PaperFigures_init d) @ ''/'' @ name @ ''.png'', ''png'')])
   \<and> (starts_with ''/'' name \<longrightarrow>
      save (PaperFigures_init d) name =
        [(name @ ''.svg'', ''svg''), (name @ ''.pdf'', ''pdf''), (name @ ''.png'', ''png'')])"
proof -
  let ?dir = "savedir (PaperFigures_init d)"
  have fmts: "save_formats (PaperFigures_init d) = [''svg'', ''pdf'', ''png'']"
    by (simp add: PaperFigures_init_def)
  have dir: "?dir \<noteq> []" "last ?dir \<noteq> CHR ''/''"
    using savedir_results [of d] by simp_all
  have st: "starts_with sep (name @ ''.'' @ ext) = starts_with ''/'' name" for ext
    using starts_with_sep_append [of "''.'' @ ext" name] by (simp add: sep_def)
  have rel: "os_path_join ?dir [name @ ''.'' @ ext] = ?dir @ ''/'' @ name @ ''.'' @ ext"
    if "\<not> starts_with ''/'' name" for ext
    using that dir st [of ext] by (simp add: os_path_join_def join_step_relative)
  have ab: "os_path_join ?dir [name @ ''.'' @ ext] = name @ ''.'' @ ext"
    if "starts_with ''/'' name" for ext
    using that st [of ext] by (simp add: os_path_join_def join_step_absolute)
  show ?thesis
    using rel ab by (simp add: save_def fmts)
qed

text \<open>
  The name \<^verbatim>\<open>brain-score\<close>, which \<^verbatim>\<open>PaperFigures.__call__\<close> uses, and an absolute name.
\<close>
theorem save_three_formats_witness:
  "\<not> starts_with ''/'' ''brain-score''
   \<and> save (PaperFigures_init ''/repo/candidate_models/analyze'') ''brain-score'' =
       [(''/repo/candidate_models/analyze/../../results/brain-score.svg'', ''svg''),
        (''/repo/candidate_models/analyze/../../results/brain-score.pdf'', ''pdf''),
        (''/repo/candidate_models/analyze/../../results/brain-score.png'', ''png'')]
   \<and> starts_with ''/'' ''/tmp/fig''
   \<and> save (PaperFigures_init ''/repo/candidate_models/analyze'') ''/tmp/fig'' =
       [(''/tmp/fig.svg'', ''svg''), (''/tmp/fig.pdf'', ''pdf''), (''/tmp/fig.png'', ''png'')]"
proof -
  have d: "savedir (PaperFigures_init ''/repo/candidate_models/analyze'')
      = ''/repo/candidate_models/analyze/../../results''"
    by (simp add: PaperFigures_init_def os_path_join_def join_step_def sep_def)
  have n1: "\<not> starts_with ''/'' ''brain-score''" by simp
  have n2: "starts_with ''/'' ''/tmp/fig''" by simp
  from save_three_formats [of "''brain-score''" "''/repo/candidate_models/analyze''"] n1
  have "save (PaperFigures_init ''/repo/candidate_models/analyze'') ''brain-score'' =
        [(savedir (PaperFigures_init ''/repo/candidate_models/analyze'') @ ''/'' @ ''brain-score'' @ ''.svg'', ''svg''),
         (savedir (PaperFigures_init ''/repo/candidate_models/analyze'') @ ''/'' @ ''brain-score'' @ ''.pdf'', ''pdf''),
         (savedir (PaperFigures_init ''/repo/candidate_models/analyze'') @ ''/'' @ ''brain-score'' @ ''.png'', ''png'')]"
    by blast
  moreover from save_three_formats [of "''/tmp/fig''" "''/repo/candidate_models/analyze''"] n2
  have "save (PaperFigures_init ''/repo/candidate_models/analyze'') ''/tmp/fig'' =
        [(''/tmp/fig'' @ ''.svg'', ''svg''), (''/tmp/fig'' @ ''.pdf'', ''pdf''), (''/tmp/fig'' @ ''.png'', ''png'')]"
    by blast
  ultimately show ?thesis using d n1 n2 by simp
qed

text \<open>
  C6 as stated fails for the figure name \<^verbatim>\<open>/tmp/fig\<close>: the three files are written to
  \<^verbatim>\<open>/tmp\<close>, not to the results directory.
\<close>
theorem save_three_formats_counterexample:
  "savedir (PaperFigures_init ''/repo/candidate_models/analyze'')
     = ''/repo/candidate_models/analyze/../../results''
   \<and> save (PaperFigures_init ''/repo/candidate_models/analyze'') ''/tmp/fig'' =
       [(''/tmp/fig.svg'', ''svg''), (''/tmp/fig.pdf'', ''pdf''), (''/tmp/fig.png'', ''png'')]
   \<and> map fst (save (PaperFigures_init ''/repo/candidate_models/analyze'') ''/tmp/fig'') \<noteq>
       [''/repo/candidate_models/analyze/../../results'' @ ''/'' @ ''/tmp/fig'' @ ''.svg'',
        ''/repo/candidate_models/analyze/../../results'' @ ''/'' @ ''/tmp/fig'' @ ''.pdf'',
        ''/repo/candidate_models/analyze/../../results'' @ ''/'' @ ''/tmp/fig'' @ ''.png'']"
  by (simp add: save_def PaperFigures_init_def os_path_join_def join_step_def sep_def)

subsection \<open>Highlighting\<close>

text \<open>
  C10. \<^verbatim>\<open>BrainScorePlot._highlight\<close> leaves the axes untouched when \<open>x\<close> exceeds 72,
  while \<^verbatim>\<open>BrainScoreZoomPlot._highlight\<close> is \<^verbatim>\<open>Plot._highlight\<close> and draws the line and the
  label (at font size 30) for every \<open>x\<close>.
\<close>
theorem highlight_guard:
  "(72 < x \<longrightarrow> BrainScorePlot_highlight self ax label x y = ax
               \<and> highlight_method BrainScorePlot ax label x y = ax)
   \<and> BrainScoreZoomPlot_highlight self ax label x y = Plot_highlight self ax label x y
   \<and> highlight_method BrainScoreZoomPlot ax label x y =
       ax\<lparr>artists := artists ax @
          [Line [x, x + (snd (xlim ax) - fst (xlim ax)) * 0.02]
                [y, y + (snd (ylim ax) - fst (ylim ax)) * 0.02],
           TextLabel (x + (snd (xlim ax) - fst (xlim ax)) * 0.02)
                     (y + (snd (ylim ax) - fst (ylim ax)) * 0.02) label (Some 30)]\<rparr>"
  by (simp add: BrainScorePlot_highlight_def BrainScoreZoomPlot_highlight_def Plot_highlight_def
      text_method_def Let_def)

text \<open>
  A model at 80 percent: no marker in the full plot, line and label in the zoomed one.
\<close>
theorem highlight_guard_witness:
  "(72::real) < 80
   \<and> highlight_method BrainScorePlot (new_axes\<lparr>xlim := (30, 90)\<rparr>) ''pnasnet_large'' 80 0.5
       = new_axes\<lparr>xlim := (30, 90)\<rparr>
   \<and> artists (highlight_method BrainScoreZoomPlot (new_axes\<lparr>xlim := (30, 90)\<rparr>) ''pnasnet_large'' 80 0.5)
       = [Line [80, 81.2] [0.5, 0.52], TextLabel 81.2 0.52 ''pnasnet_large'' (Some 30)]"
proof -
  have h: "(72::real) < 80" by simp
  from highlight_guard [of 80 BrainScorePlot "new_axes\<lparr>xlim := (30, 90)\<rparr>" "''pnasnet_large''" "0.5"] h
  have a: "highlight_method BrainScorePlot (new_axes\<lparr>xlim := (30, 90)\<rparr>) ''pnasnet_large'' 80 0.5
       = new_axes\<lparr>xlim := (30, 90)\<rparr>"
    and b: "highlight_method BrainScoreZoomPlot (new_axes\<lparr>xlim := (30, 90)\<rparr>) ''pnasnet_large'' 80 0.5 =
       (new_axes\<lparr>xlim := (30, 90)\<rparr>)\<lparr>artists := artists (new_axes\<lparr>xlim := (30, 90)\<rparr>) @
          [Line [80, 80 + (snd (xlim (new_axes\<lparr>xlim := (30, 90)\<rparr>)) - fst (xlim (new_axes\<lparr>xlim := (30, 90)\<rparr>))) * 0.02]
                [0.5, 0.5 + (snd (ylim (new_axes\<lparr>xlim := (30, 90)\<rparr>)) - fst (ylim (new_axes\<lparr>xlim := (30, 90)\<rparr>))) * 0.02],
           TextLabel (80 + (snd (xlim (new_axes\<lparr>xlim := (30, 90)\<rparr>)) - fst (xlim (new_axes\<lparr>xlim := (30, 90)\<rparr>))) * 0.02)
                     (0.5 + (snd (ylim (new_axes\<lparr>xlim := (30, 90)\<rparr>)) - fst (ylim (new_axes\<lparr>xlim := (30, 90)\<rparr>))) * 0.02)
                     ''pnasnet_large'' (Some 30)]\<rparr>"
    by blast+
  have "artists (highlight_method BrainScoreZoomPlot (new_axes\<lparr>xlim := (30, 90)\<rparr>) ''pnasnet_large'' 80 0.5)
       = [Line [80, 81.2] [0.5, 0.52], TextLabel 81.2 0.52 ''pnasnet_large'' (Some 30)]"
    unfolding b by (simp add: new_axes_def)
  with h a show ?thesis by simp
qed

subsection \<open>Basenets\<close>

lemma zip_colors:
  "map (\<lambda>(px, py, c, a). Scatter px py c a s) (zip xs (zip ys (zip (map f ms) (map g ms))))
   = map (\<lambda>(px, py, m). Scatter px py (f m) (g m) s) (zip xs (zip ys ms))"
proof (induction ms arbitrary: xs ys)
  case Nil
  then show ?case by simp
next
  case (Cons m ms)
  then show ?case by (cases xs; cases ys) simp_all
qed

text \<open>
  C7. When the coordinates are one-dimensional, \<^verbatim>\<open>BrainScorePlot.apply\<close> scatters one
  point per model, with color \<^verbatim>\<open>#878789\<close> and alpha 0.3 if the model is a basenet and
  color \<^verbatim>\<open>#078930\<close> and alpha 0.7 otherwise; and no row returned by
  \<^verbatim>\<open>IndividualPlot.collect_results\<close> has a basenet as its model.
\<close>
theorem basenet_colors_and_exclusion:
  "(BrainScorePlot_get_xye fe data = (Vector xs, Vector ys, yerr, models) \<longrightarrow>
      BrainScorePlot_apply self fe data ax =
        Inr (ax\<lparr>artists := artists ax @
                  map (\<lambda>(px, py, m).
                         Scatter px py (if is_basenet fe m then ''#878789'' else ''#078930'')
                           (if is_basenet fe m then 0.3 else 0.7) (marker_size self))
                    (zip xs (zip ys models)),
                xlabel := ''Imagenet performance (% top-1)'', ylabel := ''Brain-Score''\<rparr>))
   \<and> (\<forall>r \<in> set (IndividualPlot_collect_results fe). \<not> is_basenet fe (row_model r))"
proof (intro conjI impI)
  assume xye: "BrainScorePlot_get_xye fe data = (Vector xs, Vector ys, yerr, models)"
  have c: "(\<lambda>m. if \<not> is_basenet fe m then nonbasenet_color else basenet_color)
      = (\<lambda>m. if is_basenet fe m then ''#878789'' else ''#078930'')"
    by (auto simp: nonbasenet_color_def basenet_color_def)
  have a: "(\<lambda>m. if \<not> is_basenet fe m then nonbasenet_alpha else basenet_alpha)
      = (\<lambda>m. if is_basenet fe m then 0.3 else 0.7)"
    by (auto simp: nonbasenet_alpha_def basenet_alpha_def)
  show "BrainScorePlot_apply self fe data ax =
        Inr (ax\<lparr>artists := artists ax @
                  map (\<lambda>(px, py, m).
                         Scatter px py (if is_basenet fe m then ''#878789'' else ''#078930'')
                           (if is_basenet fe m then 0.3 else 0.7) (marker_size self))
                    (zip xs (zip ys models)),
                xlabel := ''Imagenet performance (% top-1)'', ylabel := ''Brain-Score''\<rparr>)"
    unfolding BrainScorePlot_apply_def BrainScorePlot_plot_def xye c a
    by (simp add: zip_colors)
next
  show "\<forall>r \<in> set (IndividualPlot_collect_results fe). \<not> is_basenet fe (row_model r)"
    by (simp add: IndividualPlot_collect_results_def)
qed

text \<open>
  The example data: \<^verbatim>\<open>basenet6\<close> is drawn grey and transparent, and only the rows of
  \<^verbatim>\<open>alexnet\<close> are collected for the individual plots.
\<close>
theorem basenet_colors_and_exclusion_witness:
  "BrainScorePlot_get_xye (example_figures_env (NaN, NaN)) example_rows
     = (Vector [57.7, 40, 48], Vector [0.3, 0.2, 0.25], Vector [0.01, 0.02, 0.02],
        [''alexnet'', ''basenet6'', ''cornet_z''])
   \<and> BrainScorePlot_apply BrainScorePlot (example_figures_env (NaN, NaN)) example_rows new_axes
     = Inr (new_axes\<lparr>artists :=
              [Scatter 57.7 0.3 ''#078930'' 0.7 50, Scatter 40 0.2 ''#878789'' 0.3 50,
               Scatter 48 0.25 ''#078930'' 0.7 50],
            xlabel := ''Imagenet performance (% top-1)'', ylabel := ''Brain-Score''\<rparr>)
   \<and> map row_model (IndividualPlot_collect_results (example_figures_env (NaN, NaN)))
     = [''alexnet'', ''alexnet'', ''alexnet'']
   \<and> \<not> is_basenet (example_figures_env (NaN, NaN)) ''alexnet''"
proof -
  let ?fe = "example_figures_env (NaN, NaN)"
  have xye: "BrainScorePlot_get_xye ?fe example_rows
     = (Vector [57.7, 40, 48], Vector [0.3, 0.2, 0.25], Vector [0.01, 0.02, 0.02],
        [''alexnet'', ''basenet6'', ''cornet_z''])"
    by (simp add: BrainScorePlot_get_xye_def example_figures_env_def example_rows_def squeeze_def)
  have rows: "map row_model (IndividualPlot_collect_results ?fe) = [''alexnet'', ''alexnet'', ''alexnet'']"
    by (simp add: IndividualPlot_collect_results_def example_figures_env_def example_rows_def)
  note inst = basenet_colors_and_exclusion [of ?fe example_rows "[57.7, 40, 48]" "[0.3, 0.2, 0.25]"
      "Vector [0.01, 0.02, 0.02]" "[''alexnet'', ''basenet6'', ''cornet_z'']" BrainScorePlot new_axes]
  from inst xye have app: "BrainScorePlot_apply BrainScorePlot ?fe example_rows new_axes =
        Inr (new_axes\<lparr>artists := artists new_axes @
                  map (\<lambda>(px, py, m).
                         Scatter px py (if is_basenet ?fe m then ''#878789'' else ''#078930'')
                           (if is_basenet ?fe m then 0.3 else 0.7) (marker_size BrainScorePlot))
                    (zip [57.7, 40, 48] (zip [0.3, 0.2, 0.25] [''alexnet'', ''basenet6'', ''cornet_z''])),
                xlabel := ''Imagenet performance (% top-1)'', ylabel := ''Brain-Score''\<rparr>)"
    by blast
  from inst have "\<forall>r \<in> set (IndividualPlot_collect_results ?fe). \<not> is_basenet ?fe (row_model r)"
    by blast
  then have "\<forall>m \<in> set (map row_model (IndividualPlot_collect_results ?fe)). \<not> is_basenet ?fe m"
    by simp
  then have nb: "\<not> is_basenet ?fe ''alexnet''"
    unfolding rows by simp
  have "BrainScorePlot_apply BrainScorePlot ?fe example_rows new_axes
     = Inr (new_axes\<lparr>artists :=
              [Scatter 57.7 0.3 ''#078930'' 0.7 50, Scatter 40 0.2 ''#878789'' 0.3 50,
               Scatter 48 0.25 ''#078930'' 0.7 50],
            xlabel := ''Imagenet performance (% top-1)'', ylabel := ''Brain-Score''\<rparr>)"
    unfolding app by (simp add: example_figures_env_def new_axes_def marker_size_def)
  with xye rows nb show ?thesis by simp
qed

subsection \<open>Correlation\<close>

subsubsection \<open>The format reads back as the coefficient\<close>

lemma digit_cases:
  assumes "d < (10::nat)"
  obtains "d = 0" | "d = 1" | "d = 2" | "d = 3" | "d = 4" | "d = 5" | "d = 6" | "d = 7" | "d = 8" | "d = 9"
proof -
  from assms have "d = 0 \<or> d = 1 \<or> d = 2 \<or> d = 3 \<or> d = 4 \<or> d = 5 \<or> d = 6 \<or> d = 7 \<or> d = 8 \<or> d = 9"
    by arith
  with that show thesis by blast
qed

lemma digit_value_digit_char: "d < 10 \<Longrightarrow> digit_value (digit_char d) = Some d"
  by (erule digit_cases) (simp_all add: digit_value_def digit_char_def)

lemma digit_char_not_minus: "d < 10 \<Longrightarrow> digit_char d \<noteq> CHR ''-''"
  by (erule digit_cases) (simp_all add: digit_char_def)

lemma string_of_nat_small: "n < 10 \<Longrightarrow> string_of_nat n = [digit_char n]"
  by (subst string_of_nat.simps) simp

lemma string_of_nat_large:
  "\<not> n < 10 \<Longrightarrow> string_of_nat n = string_of_nat (n div 10) @ [digit_char (n mod 10)]"
  by (subst string_of_nat.simps) simp

lemma string_of_nat_nonempty: "string_of_nat n \<noteq> []"
  by (cases "n < 10") (simp_all add: string_of_nat_small string_of_nat_large)

lemma fold_add_digit_string_of_nat: "fold add_digit (string_of_nat n) (Some 0) = Some n"
proof (induction n rule: string_of_nat.induct)
  case (1 n)
  show ?case
  proof (cases "n < 10")
    case True
    then show ?thesis
      by (simp add: string_of_nat_small add_digit_def digit_value_digit_char)
  next
    case False
    have "n mod 10 < 10" by simp
    with False "1.IH" show ?thesis
      by (simp add: string_of_nat_large add_digit_def digit_value_digit_char)
  qed
qed

lemma nat_of_digits_string_of_nat: "nat_of_digits (string_of_nat n) = Some n"
  by (simp add: nat_of_digits_def string_of_nat_nonempty fold_add_digit_string_of_nat
     )

lemma string_of_nat_head: "string_of_nat n = c # t \<Longrightarrow> c \<noteq> CHR ''-''"
proof (induction n arbitrary: c t rule: string_of_nat.induct)
  case (1 n)
  show ?case
  proof (cases "n < 10")
    case True
    with "1.prems" digit_char_not_minus [of n] show ?thesis
      by (simp add: string_of_nat_small)
  next
    case False
    obtain c' t' where ct: "string_of_nat (n div 10) = c' # t'"
      using string_of_nat_nonempty [of "n div 10"] by (cases "string_of_nat (n div 10)") auto
    with False "1.prems" have "c = c'"
      by (simp add: string_of_nat_large)
    with "1.IH" [OF False ct] show ?thesis by simp
  qed
qed

lemma round_half_even_close: "\<bar>of_int (round_half_even q) - q\<bar> \<le> 1 / 2"
proof -
  have "of_int \<lfloor>q\<rfloor> \<le> q" "q < of_int \<lfloor>q\<rfloor> + 1" by linarith+
  then show ?thesis
    by (auto simp: round_half_even_def Let_def abs_le_iff)
qed

lemma round_half_even_nonneg: "0 \<le> q \<Longrightarrow> 0 \<le> round_half_even q"
  by (auto simp: round_half_even_def Let_def)

lemma hundredths: "real (n div 100) + real (n mod 100 div 10) / 10 + real (n mod 10) / 100 = real n / 100"
proof -
  define q r d m where "q = n div 100" and "r = n mod 100" and "d = r div 10" and "m = r mod 10"
  have n: "n = 100 * q + r"
    by (simp add: q_def r_def)
  have r: "r = 10 * d + m"
    by (simp add: d_def m_def)
  have m: "m = n mod 10"
    unfolding m_def r_def by (rule mod_mod_cancel) simp
  from n r have "real n = 100 * real q + 10 * real d + real m"
    by simp
  then have "real q + real d / 10 + real m / 100 = real n / 100"
    by simp
  then show ?thesis
    by (simp add: q_def d_def r_def m [symmetric])
qed

lemma read_unsigned_two_decimals:
  "read_unsigned (string_of_nat (n div 100) @ ''.'' @ [digit_char (n mod 100 div 10), digit_char (n mod 10)])
     = Some (real n / 100)"
proof -
  have "n mod 100 < 10 * 10" by simp
  then have d1: "n mod 100 div 10 < 10" by (rule less_mult_imp_div_less)
  have d2: "n mod 10 < 10" by simp
  show ?thesis
    using digit_value_digit_char [OF d1] digit_value_digit_char [OF d2] hundredths [of n]
    by (simp add: read_unsigned_def nat_of_digits_string_of_nat)
qed

lemma read_2f_format_2f:
  "\<exists>w. read_2f (format_2f (Finite v)) = Some w \<and> \<bar>w - v\<bar> \<le> 1 / 200"
proof -
  define n where "n = nat (round_half_even (\<bar>v\<bar> * 100))"
  define u where "u = string_of_nat (n div 100) @ ''.'' @ [digit_char (n mod 100 div 10), digit_char (n mod 10)]"
  have fmt: "format_2f (Finite v) = (if v < 0 then ''-'' else []) @ u"
    by (simp add: n_def u_def Let_def)
  have ru: "read_unsigned u = Some (real n / 100)"
    unfolding u_def by (rule read_unsigned_two_decimals)
  have "0 \<le> round_half_even (\<bar>v\<bar> * 100)"
    by (rule round_half_even_nonneg) simp
  then have "real n = of_int (round_half_even (\<bar>v\<bar> * 100))"
    by (simp add: n_def)
  with round_half_even_close [of "\<bar>v\<bar> * 100"] have "\<bar>real n - \<bar>v\<bar> * 100\<bar> \<le> 1 / 2"
    by simp
  then have close: "\<bar>real n / 100 - \<bar>v\<bar>\<bar> \<le> 1 / 200"
    by linarith
  obtain c t where ct: "string_of_nat (n div 100) = c # t"
    using string_of_nat_nonempty [of "n div 100"] by (cases "string_of_nat (n div 100)") auto
  then have c: "c \<noteq> CHR ''-''" by (rule string_of_nat_head)
  have uc: "u = c # (t @ ''.'' @ [digit_char (n mod 100 div 10), digit_char (n mod 10)])"
    by (simp add: u_def ct)
  show ?thesis
  proof (cases "v < 0")
    case True
    then have "read_2f (format_2f (Finite v)) = Some (- (real n / 100))"
      unfolding fmt by (simp add: read_2f_def ru)
    moreover from True close have "\<bar>- (real n / 100) - v\<bar> \<le> 1 / 200"
      by linarith
    ultimately show ?thesis by blast
  next
    case False
    then have "read_2f (format_2f (Finite v)) = read_unsigned u"
      unfolding fmt using c by (simp add: read_2f_def uc)
    with ru have "read_2f (format_2f (Finite v)) = Some (real n / 100)" by simp
    moreover from False close have "\<bar>real n / 100 - v\<bar> \<le> 1 / 200"
      by linarith
    ultimately show ?thesis by blast
  qed
qed

lemma annotation_texts_differ: "''r = '' @ s \<noteq> ''r n.s.''"
  by simp

text \<open>
  C8. For every plot class whose data can be read and correlated, the annotation is
  \<^verbatim>\<open>r = \<close> followed by the formatted coefficient when the p-value is below 0.05, and
  \<^verbatim>\<open>r n.s.\<close> otherwise (also for a p-value that is NaN); the two texts never coincide,
  so the first is shown if and only if the p-value is below the threshold. The
  formatted coefficient is a decimal numeral with exactly two decimals whose value
  differs from the coefficient by at most half a hundredth.
\<close>
theorem correlation_annotation:
  assumes "get_xye self fe data = Inr (x, y, err)" and "pearsonr fe x y = Inr (r, p)"
  shows "indicate_correlation self fe ax data =
        Inr (text_method self ax (snd (xlim ax) - 0.15 * (snd (xlim ax) - fst (xlim ax)))
               (fst (ylim ax) + 0.02 * (snd (ylim ax) - fst (ylim ax)))
               (if float_less p (Finite 0.05) then ''r = '' @ format_2f r else ''r n.s.'') None)
      \<and> ''r = '' @ format_2f r \<noteq> ''r n.s.''
      \<and> (\<forall>v. r = Finite v \<longrightarrow> (\<exists>w. read_2f (format_2f r) = Some w \<and> \<bar>w - v\<bar> \<le> 1 / 200))"
proof -
  from assms have "indicate_correlation self fe ax data =
        Inr (text_method self ax (snd (xlim ax) - 0.15 * (snd (xlim ax) - fst (xlim ax)))
               (fst (ylim ax) + 0.02 * (snd (ylim ax) - fst (ylim ax)))
               (if float_less p (Finite 0.05) then ''r = '' @ format_2f r else ''r n.s.'') None)"
    by (simp add: indicate_correlation_def)
  moreover have "''r = '' @ format_2f r \<noteq> ''r n.s.''"
    by (rule annotation_texts_differ)
  moreover have "\<exists>w. read_2f (format_2f r) = Some w \<and> \<bar>w - v\<bar> \<le> 1 / 200" if "r = Finite v" for v
    unfolding that by (rule read_2f_format_2f)
  ultimately show ?thesis by blast
qed

text \<open>
  A significant correlation of 0.566 is shown as \<^verbatim>\<open>r = 0.57\<close>; a p-value of exactly
  0.05 is not significant.
\<close>
theorem correlation_annotation_witness:
  "get_xye BrainScorePlot (example_figures_env (Finite 0.566, Finite 0.01)) example_rows
     = Inr (Vector [57.7, 40, 48], Vector [0.3, 0.2, 0.25], Vector [0.01, 0.02, 0.02])
   \<and> float_less (Finite 0.01) (Finite 0.05)
   \<and> indicate_correlation BrainScorePlot (example_figures_env (Finite 0.566, Finite 0.01)) new_axes example_rows
     = Inr (new_axes\<lparr>artists := [TextLabel 0.85 0.02 ''r = 0.57'' None]\<rparr>)
   \<and> get_xye V4Plot (example_figures_env (Finite 0.566, Finite 0.05)) example_rows
     = Inr (Scalar 57.7, Scalar 0.6, Scalar 0.01)
   \<and> \<not> float_less (Finite 0.05) (Finite 0.05)
   \<and> indicate_correlation V4Plot (example_figures_env (Finite 0.566, Finite 0.05)) new_axes example_rows
     = Inr (new_axes\<lparr>artists := [TextLabel 0.85 0.02 ''r n.s.'' (Some 10)]\<rparr>)
   \<and> read_2f (format_2f (Finite 0.566)) = Some 0.57"
proof -
  let ?sig = "example_figures_env (Finite 0.566, Finite 0.01)"
  let ?ns = "example_figures_env (Finite 0.566, Finite 0.05)"
  have g1: "get_xye BrainScorePlot ?sig example_rows
     = Inr (Vector [57.7, 40, 48], Vector [0.3, 0.2, 0.25], Vector [0.01, 0.02, 0.02])"
    by (simp add: get_xye_def BrainScorePlot_get_xye_def example_figures_env_def example_rows_def
        squeeze_def)
  have p1: "pearsonr ?sig (Vector [57.7, 40, 48]) (Vector [0.3, 0.2, 0.25]) = Inr (Finite 0.566, Finite 0.01)"
    by (simp add: example_figures_env_def)
  have g2: "get_xye V4Plot ?ns example_rows = Inr (Scalar 57.7, Scalar 0.6, Scalar 0.01)"
    by (simp add: get_xye_def IndividualPlot_get_xye_def example_figures_env_def example_rows_def
        squeeze_def)
  have p2: "pearsonr ?ns (Scalar 57.7) (Scalar 0.6) = Inr (Finite 0.566, Finite 0.05)"
    by (simp add: example_figures_env_def)
  from correlation_annotation [OF g1 p1, of new_axes]
  have r1: "indicate_correlation BrainScorePlot ?sig new_axes example_rows
     = Inr (new_axes\<lparr>artists := [TextLabel 0.85 0.02 ''r = 0.57'' None]\<rparr>)"
    by (simp add: text_method_def new_axes_def round_half_even_def digit_char_def
        string_of_nat.simps)
  from correlation_annotation [OF g2 p2, of new_axes]
  have r2: "indicate_correlation V4Plot ?ns new_axes example_rows
     = Inr (new_axes\<lparr>artists := [TextLabel 0.85 0.02 ''r n.s.'' (Some 10)]\<rparr>)"
    by (simp add: text_method_def new_axes_def)
  have rd: "read_2f (format_2f (Finite 0.566)) = Some 0.57"
    by (simp add: round_half_even_def digit_char_def string_of_nat.simps read_2f_def
        read_unsigned_def nat_of_digits_def add_digit_def digit_value_def)
  from g1 g2 r1 r2 rd show ?thesis by simp
qed

section \<open>Properties of the ceiling plot\<close>

text \<open>
  C5. When the fit of a region raises an instance of \<^verbatim>\<open>RuntimeError\<close> or
  \<^verbatim>\<open>OptimizeWarning\<close>, the region's axes keep the scatter and the error bars and the loop
  goes on with the remaining regions; any other exception of the fit ends the loop
  with this exception, and an exception of the loop is the result of \<^verbatim>\<open>plot\<close>.
\<close>
theorem fit_failure_handling:
  assumes "collect_ceilings ce sizes size_label data metric ceiling_name = Inr ceilings"
    and "map_of ceilings region = Some (y, err)"
    and "fit_curve ce sizes y = Inl e"
  shows "(isinstance_RuntimeError e \<or> e = OptimizeWarning \<longrightarrow>
            plot_regions ce sizes ceilings ((ax, region) # rest) =
              (case plot_regions ce sizes ceilings rest of
                 Inl e' \<Rightarrow> Inl e'
               | Inr axs \<Rightarrow>
                   Inr (ax\<lparr>title := region,
                           artists := artists ax @ [ScatterArray sizes y, Errorbar sizes y err]\<rparr>
                        # axs)))
       \<and> (\<not> (isinstance_RuntimeError e \<or> e = OptimizeWarning) \<longrightarrow>
            plot_regions ce sizes ceilings ((ax, region) # rest) = Inl e)
       \<and> (\<forall>e'. plot_regions ce sizes ceilings (zip subplots (unique (map fst ceilings))) = Inl e' \<longrightarrow>
            plot ce sizes size_label data metric ceiling_name = Inl e')"
  using assms by (auto simp: plot_region_def caught_def plot_def split: sum.splits)

text \<open>
  The fit of IT raises \<^verbatim>\<open>RuntimeError\<close>, which is suppressed; the fit of V4 raises
  \<^verbatim>\<open>ValueError\<close>, which \<^verbatim>\<open>plot\<close> raises.
\<close>
theorem fit_failure_handling_witness:
  "collect_ceilings (example_ceiling_env RuntimeError ValueError) [0.25, 0.5] ''train_size''
       ''dicarlo.Majaj2015'' ''pls_fit'' ''splitrep'' = Inr example_ceilings
   \<and> fit_curve (example_ceiling_env RuntimeError ValueError) [0.25, 0.5] [0.5, 0.6] = Inl RuntimeError
   \<and> plot_regions (example_ceiling_env RuntimeError ValueError) [0.25, 0.5] example_ceilings
         [(new_axes, ''IT'')]
       = Inr [new_axes\<lparr>title := ''IT'',
                artists := [ScatterArray [0.25, 0.5] [0.5, 0.6],
                            Errorbar [0.25, 0.5] [0.5, 0.6] [0.02, 0.02]]\<rparr>]
   \<and> fit_curve (example_ceiling_env RuntimeError ValueError) [0.25, 0.5] [0.3, 0.4] = Inl ValueError
   \<and> plot (example_ceiling_env RuntimeError ValueError) [0.25, 0.5] ''train_size''
       ''dicarlo.Majaj2015'' ''pls_fit'' ''splitrep'' = Inl ValueError"
proof -
  let ?ce = "example_ceiling_env RuntimeError ValueError"
  let ?sizes = "[0.25, 0.5] :: real list"
  have c: "collect_ceilings ?ce ?sizes ''train_size'' ''dicarlo.Majaj2015'' ''pls_fit'' ''splitrep''
      = Inr example_ceilings"
    by (simp add: collect_ceilings_def example_ceiling_env_def)
  have m_it: "map_of example_ceilings ''IT'' = Some ([0.5, 0.6], [0.02, 0.02])"
    by (simp add: example_ceilings_def)
  have m_v4: "map_of example_ceilings ''V4'' = Some ([0.3, 0.4], [0.01, 0.01])"
    by (simp add: example_ceilings_def)
  have f_it: "fit_curve ?ce ?sizes [0.5, 0.6] = Inl RuntimeError"
    by (simp add: fit_curve_def example_ceiling_env_def)
  have f_v4: "fit_curve ?ce ?sizes [0.3, 0.4] = Inl ValueError"
    by (simp add: fit_curve_def example_ceiling_env_def)
  have k_it: "isinstance_RuntimeError RuntimeError \<or> RuntimeError = OptimizeWarning"
    by (simp add: isinstance_RuntimeError_def)
  have k_v4: "\<not> (isinstance_RuntimeError ValueError \<or> ValueError = OptimizeWarning)"
    by (simp add: isinstance_RuntimeError_def)
  have regions: "zip subplots (unique (map fst example_ceilings)) = [(new_axes, ''IT''), (new_axes, ''V4'')]"
    by (simp add: subplots_def unique_def example_ceilings_def)
  from fit_failure_handling [OF c m_v4 f_v4, of new_axes "[]"] k_v4
  have v4: "plot_regions ?ce ?sizes example_ceilings [(new_axes, ''V4'')] = Inl ValueError"
    and out: "\<forall>e'. plot_regions ?ce ?sizes example_ceilings (zip subplots (unique (map fst example_ceilings)))
          = Inl e' \<longrightarrow>
        plot ?ce ?sizes ''train_size'' ''dicarlo.Majaj2015'' ''pls_fit'' ''splitrep'' = Inl e'"
    by blast+
  from fit_failure_handling [OF c m_it f_it, of new_axes "[]"] k_it
  have it1: "plot_regions ?ce ?sizes example_ceilings [(new_axes, ''IT'')]
       = Inr [new_axes\<lparr>title := ''IT'',
                artists := artists new_axes @ [ScatterArray ?sizes [0.5, 0.6],
                            Errorbar ?sizes [0.5, 0.6] [0.02, 0.02]]\<rparr>]"
    by simp
  from fit_failure_handling [OF c m_it f_it, of new_axes "[(new_axes, ''V4'')]"] k_it v4
  have "plot_regions ?ce ?sizes example_ceilings [(new_axes, ''IT''), (new_axes, ''V4'')] = Inl ValueError"
    by simp
  with out regions
  have p: "plot ?ce ?sizes ''train_size'' ''dicarlo.Majaj2015'' ''pls_fit'' ''splitrep'' = Inl ValueError"
    by simp
  have "artists new_axes = []" by (simp add: new_axes_def)
  with it1 c f_it f_v4 p show ?thesis by simp
qed

end
